theory Spec2Isabelle
  imports Complex_Main "HOL-Library.AList"
begin

section \<open>Data model of the connection registry (src/core/ConnectionRegistry.js)\<close>

text \<open>
  WebSocket connections, message queues and timers are JavaScript objects with identity.
  The model keeps each kind in a store indexed by a handle, so that the registry's maps
  hold handles and aliasing (the same connection registered twice, a queue held by a
  request handler after the registry dropped it) is visible.
\<close>

type_synonym ws = nat
type_synonym qid = nat
type_synonym tid = nat

text \<open>
  The value found in \<open>clientInfo.authIndex\<close>. \<open>JSInt n\<close> is a number for which
  \<open>Number.isInteger\<close> holds; \<open>JSOther b\<close> is any other value that is not
  \<open>undefined\<close> (a fractional number, NaN, a string, null, ...), with \<open>b\<close> the
  outcome of the comparison \<open>authIndex < 0\<close> on it.
\<close>

datatype js_value = JSUndefined | JSInt int | JSOther bool

text \<open>Values produced by \<open>JSON.parse\<close>.\<close>

datatype jsnum = Finite rat | PosInfinity | NegInfinity

datatype json =
    JNull
  | JBool bool
  | JNum jsnum
  | JStr string
  | JArr "json list"
  | JObj "(string \<times> json) list"

datatype js_error = SyntaxError | TypeError

text \<open>
  Modelled from the spec: the class \<open>MessageQueue\<close> (\<open>src/utils/MessageQueue.js\<close>) is
  not among the sources. Section 4.2 of the specification gives its contract: FIFO order,
  \<open>enqueue\<close> never drops an entry while the queue is open, \<open>close\<close> is idempotent, and
  after \<open>close\<close> further \<open>enqueue\<close> calls are silently ignored.
\<close>

record message_queue =
  items :: "json list"
  closed :: bool

definition new_queue :: message_queue where
  "new_queue = \<lparr>items = [], closed = False\<rparr>"

definition enqueue :: "json \<Rightarrow> message_queue \<Rightarrow> message_queue" where
  "enqueue m q = (if closed q then q else q\<lparr>items := items q @ [m]\<rparr>)"

definition close_queue :: "message_queue \<Rightarrow> message_queue" where
  "close_queue q = q\<lparr>closed := True\<rparr>"

text \<open>The three handlers that \<open>addConnection\<close> attaches with \<open>websocket.on\<close>.\<close>

datatype listener = OnMessage | OnClose | OnError

text \<open>
  A connection object: the \<open>_authIndex\<close> property stamped by \<open>addConnection\<close>
  (\<open>None\<close> is \<open>undefined\<close>), the listeners in registration order, and whether its
  \<open>close\<close> method throws (with the message of the exception).
\<close>

record socket =
  authIndexStamp :: "int option"
  listeners :: "listener list"
  closeThrows :: "string option"

record client_info =
  authIndex :: js_value
  address :: string

datatype page_status = NoContext | NoPage | PageClosed | PageOpen

datatype timer_task = GraceTimer int | RecoveryTimeout

datatype registry_event = ConnectionAdded ws | ConnectionRemoved ws | ConnectionLost

datatype log_entry =
    RejectInvalidAuthIndex js_value
  | DuplicateConnection int
  | ErrorClosingOld string
  | GraceTimerCleared int
  | ClearingStaleQueues int nat
  | ClientConnected string int
  | ClientDisconnected "int option"
  | PageClosedSkipping int
  | StartingGrace int
  | GraceEnded int
  | KeepingQueues int
  | AttemptingReconnect int
  | ReconnectCompleted int
  | ReconnectFailed int string
  | MissingRequestId
  | UnknownRequestId "json option"
  | ParseFailed
  | UnknownEventType "json option"
  | FoundConnection int
  | NoConnectionFound int
  | ClosingConnection int
  | ErrorClosing int string
  | NoConnectionToClose int
  | ForceClosingQueues nat
  | SocketError string

text \<open>
  The side effects of the registry in the order in which the code performs them: log lines,
  calls on connection objects, stores into the connection map and the reconnecting map,
  timer calls, the recovery callback, emitted events and calls on queues; and an error that
  leaves the async grace callback, which nothing catches.
\<close>

datatype effect =
    Log log_entry
  | WsRemoveAllListeners ws
  | WsClose ws "(nat \<times> string) option"
  | WsOn ws listener
  | StoreConnection int ws
  | SetReconnecting int
  | ClearReconnecting int
  | InvokeCallback int
  | SetTimeout tid nat
  | ClearTimeout tid
  | Emit registry_event
  | QueueEnqueue qid json
  | QueueClose qid
  | UnhandledRejection js_error

text \<open>
  The registry: the four maps of the constructor, whether a recovery callback was supplied,
  and the stores of the objects it works on. \<open>messageQueues\<close> is an association list in
  insertion order, as a JavaScript \<open>Map\<close> iterates. \<open>timers\<close> holds the timers that
  were set and have neither fired nor been cleared; \<open>suspended\<close> holds the grace-timer
  callbacks that wait at \<open>await Promise.race\<close>, keyed by the timer of their timeout
  promise, with the \<open>disconnectedAuthIndex\<close> of their closure.
\<close>

record registry =
  connectionsByAuth :: "int \<rightharpoonup> ws"
  messageQueues :: "(string \<times> qid) list"
  reconnectGraceTimers :: "int \<rightharpoonup> tid"
  reconnectingAccounts :: "int \<rightharpoonup> bool"
  onConnectionLostCallback :: bool
  sockets :: "ws \<Rightarrow> socket"
  queues :: "qid \<Rightarrow> message_queue"
  nextQueue :: qid
  timers :: "tid \<rightharpoonup> timer_task"
  nextTimer :: tid
  suspended :: "tid \<rightharpoonup> int"
  trace :: "effect list"

definition new_socket :: socket where
  "new_socket = \<lparr>authIndexStamp = None, listeners = [], closeThrows = None\<rparr>"

definition new_registry :: "bool \<Rightarrow> registry" where
  "new_registry cb =
     \<lparr>connectionsByAuth = Map.empty, messageQueues = [], reconnectGraceTimers = Map.empty,
      reconnectingAccounts = Map.empty, onConnectionLostCallback = cb,
      sockets = (\<lambda>_. new_socket), queues = (\<lambda>_. new_queue), nextQueue = 0,
      timers = Map.empty, nextTimer = 0, suspended = Map.empty, trace = []\<rparr>"

definition perform :: "effect list \<Rightarrow> registry \<Rightarrow> registry" where
  "perform es s = s\<lparr>trace := trace s @ es\<rparr>"

text \<open>
  \<open>this.getCurrentAuthIndex ? this.getCurrentAuthIndex() : -1\<close>: the argument is
  \<open>None\<close> when no accessor was supplied and \<open>Some c\<close> when the accessor returns \<open>c\<close>
  at the moment of the call.
\<close>

definition currentAuthIndex :: "int option \<Rightarrow> int" where
  "currentAuthIndex g = (case g of None \<Rightarrow> - 1 | Some c \<Rightarrow> c)"

section \<open>Queue operations\<close>

text \<open>
  \<open>closeAllMessageQueues\<close>, \<open>createMessageQueue\<close> and \<open>removeMessageQueue\<close>
  (lines 287-317). \<open>close_each\<close> is the \<open>forEach\<close> loop that closes the queues in
  the order of the map; \<open>new MessageQueue()\<close> takes the next free place of the queue store.
\<close>

definition close_each :: "qid list \<Rightarrow> registry \<Rightarrow> registry" where
  "close_each qs s =
     foldl (\<lambda>r q. perform [QueueClose q] (r\<lparr>queues := (queues r)(q := close_queue (queues r q))\<rparr>)) s qs"

definition closeAllMessageQueues :: "registry \<Rightarrow> registry" where
  "closeAllMessageQueues s =
     (if length (messageQueues s) > 0 then
        (close_each (map snd (messageQueues s))
           (perform [Log (ForceClosingQueues (length (messageQueues s)))] s))
        \<lparr>messageQueues := []\<rparr>
      else s)"

definition createMessageQueue :: "string \<Rightarrow> registry \<Rightarrow> registry" where
  "createMessageQueue requestId s =
     s\<lparr>queues := (queues s)(nextQueue s := new_queue),
       messageQueues := AList.update requestId (nextQueue s) (messageQueues s),
       nextQueue := Suc (nextQueue s)\<rparr>"

definition removeMessageQueue :: "string \<Rightarrow> registry \<Rightarrow> registry" where
  "removeMessageQueue requestId s =
     (case map_of (messageQueues s) requestId of
        Some q \<Rightarrow>
          (perform [QueueClose q] (s\<lparr>queues := (queues s)(q := close_queue (queues s q))\<rparr>))
            \<lparr>messageQueues := AList.delete requestId (messageQueues s)\<rparr>
      | None \<Rightarrow> s)"

section \<open>addConnection\<close>

text \<open>
  The test of line 40, \<open>authIndex === undefined || authIndex < 0 ||
  !Number.isInteger(authIndex)\<close>, and the parts of \<open>addConnection\<close> in the order of the
  source: \<open>replace_existing\<close> (lines 52-65), \<open>clear_grace_on_reconnect\<close> (lines 67-83),
  \<open>store_connection\<close> (lines 85-92) and \<open>register_handlers\<close> (lines 94-98). A call of
  \<open>close\<close> on a connection is recorded in the trace; when it throws, the \<open>catch\<close> block
  of the caller runs. A validated \<open>authIndex\<close> is an integer, so the last case of
  \<open>addConnection\<close> is never taken.
\<close>

fun js_lt_zero :: "js_value \<Rightarrow> bool" where
  "js_lt_zero JSUndefined = False"
| "js_lt_zero (JSInt n) = (n < 0)"
| "js_lt_zero (JSOther b) = b"

fun isInteger :: "js_value \<Rightarrow> bool" where
  "isInteger (JSInt n) = True"
| "isInteger _ = False"

definition invalid_authIndex :: "js_value \<Rightarrow> bool" where
  "invalid_authIndex a = (a = JSUndefined \<or> js_lt_zero a \<or> \<not> isInteger a)"

definition ws_close :: "ws \<Rightarrow> (nat \<times> string) option \<Rightarrow> registry \<Rightarrow> registry" where
  "ws_close w args s = perform [WsClose w args] s"

definition replace_existing :: "int \<Rightarrow> ws \<Rightarrow> registry \<Rightarrow> registry" where
  "replace_existing a websocket s =
     (case connectionsByAuth s a of
        None \<Rightarrow> s
      | Some existingConnection \<Rightarrow>
          if existingConnection \<noteq> websocket then
            (let s1 = perform [Log (DuplicateConnection a)] s;
                 s2 = perform [WsRemoveAllListeners existingConnection]
                        (s1\<lparr>sockets := (sockets s1)
                               (existingConnection := (sockets s1 existingConnection)\<lparr>listeners := []\<rparr>)\<rparr>);
                 s3 = ws_close existingConnection (Some (1000, ''Replaced by new connection'')) s2
             in case closeThrows (sockets s3 existingConnection) of
                  None \<Rightarrow> s3
                | Some msg \<Rightarrow> perform [Log (ErrorClosingOld msg)] s3)
          else s)"

definition clear_grace_on_reconnect :: "int option \<Rightarrow> int \<Rightarrow> registry \<Rightarrow> registry" where
  "clear_grace_on_reconnect g a s =
     (case reconnectGraceTimers s a of
        None \<Rightarrow> s
      | Some t \<Rightarrow>
          (let s1 = perform [ClearTimeout t] (s\<lparr>timers := (timers s)(t := None)\<rparr>);
               s2 = perform [Log (GraceTimerCleared a)]
                      (s1\<lparr>reconnectGraceTimers := (reconnectGraceTimers s1)(a := None)\<rparr>)
           in if a = currentAuthIndex g \<and> length (messageQueues s2) > 0 then
                closeAllMessageQueues
                  (perform [Log (ClearingStaleQueues a (length (messageQueues s2)))] s2)
              else s2))"

definition register_handlers :: "ws \<Rightarrow> registry \<Rightarrow> registry" where
  "register_handlers websocket s =
     perform [WsOn websocket OnMessage, WsOn websocket OnClose, WsOn websocket OnError]
       (s\<lparr>sockets := (sockets s)
             (websocket := (sockets s websocket)
                \<lparr>listeners := listeners (sockets s websocket) @ [OnMessage, OnClose, OnError]\<rparr>)\<rparr>)"

definition store_connection :: "int \<Rightarrow> ws \<Rightarrow> string \<Rightarrow> registry \<Rightarrow> registry" where
  "store_connection a websocket addr s =
     (let s1 = perform [StoreConnection a websocket, Log (ClientConnected addr a)]
                 (s\<lparr>connectionsByAuth := (connectionsByAuth s)(a \<mapsto> websocket)\<rparr>)
      in s1\<lparr>sockets := (sockets s1)
               (websocket := (sockets s1 websocket)\<lparr>authIndexStamp := Some a\<rparr>)\<rparr>)"

definition addConnection :: "int option \<Rightarrow> ws \<Rightarrow> client_info \<Rightarrow> registry \<Rightarrow> registry" where
  "addConnection g websocket clientInfo s =
     (if invalid_authIndex (authIndex clientInfo) then
        ws_close websocket (Some (1008, ''Invalid authIndex''))
          (perform [Log (RejectInvalidAuthIndex (authIndex clientInfo))] s)
      else
        (case authIndex clientInfo of
           JSInt a \<Rightarrow>
             perform [Emit (ConnectionAdded websocket)]
               (register_handlers websocket
                 (store_connection a websocket (address clientInfo)
                   (clear_grace_on_reconnect g a
                     (replace_existing a websocket s))))
         | _ \<Rightarrow> s))"

definition getConnectionByAuth :: "int \<Rightarrow> registry \<Rightarrow> ws option \<times> registry" where
  "getConnectionByAuth a s =
     (case connectionsByAuth s a of
        Some connection \<Rightarrow> (Some connection, perform [Log (FoundConnection a)] s)
      | None \<Rightarrow> (None, perform [Log (NoConnectionFound a)] s))"

section \<open>Teardown and the grace timer\<close>

text \<open>
  \<open>_removeConnection\<close> (lines 102-201) and \<open>closeConnectionByAuth\<close> (lines 265-285).
  \<open>page_gone\<close> is \<open>!contextData || !contextData.page || contextData.page.isClosed()\<close>
  on the entry of \<open>browserManager.contexts\<close> for the account. The lookup is an argument
  of the model: \<open>None\<close> when no browser manager was supplied. \<open>setTimeout\<close> takes the
  next free timer handle; \<open>clearTimeout\<close> removes the timer from the pending ones, and
  does nothing to a timer that has fired. \<open>clear_grace_timer\<close> is the
  \<open>clearTimeout\<close> with \<open>delete\<close> of lines 125-128 and 278-281, \<open>start_grace_timer\<close>
  is lines 134-200.
\<close>

definition page_gone :: "page_status \<Rightarrow> bool" where
  "page_gone p = (p = NoContext \<or> p = NoPage \<or> p = PageClosed)"

definition clear_grace_timer :: "int \<Rightarrow> registry \<Rightarrow> registry" where
  "clear_grace_timer a s =
     (case reconnectGraceTimers s a of
        None \<Rightarrow> s
      | Some t \<Rightarrow>
          (perform [ClearTimeout t] (s\<lparr>timers := (timers s)(t := None)\<rparr>))
            \<lparr>reconnectGraceTimers := (reconnectGraceTimers s)(a := None)\<rparr>)"

definition start_grace_timer :: "int \<Rightarrow> ws \<Rightarrow> registry \<Rightarrow> registry" where
  "start_grace_timer d websocket s =
     (let s1 = (case reconnectGraceTimers s d of
                  None \<Rightarrow> s
                | Some t \<Rightarrow> perform [ClearTimeout t] (s\<lparr>timers := (timers s)(t := None)\<rparr>));
          graceTimerId = nextTimer s1;
          s2 = perform [Log (StartingGrace d), SetTimeout graceTimerId 5000]
                 (s1\<lparr>timers := (timers s1)(graceTimerId \<mapsto> GraceTimer d),
                     nextTimer := Suc graceTimerId\<rparr>);
          s3 = (if d \<ge> 0
                then s2\<lparr>reconnectGraceTimers := (reconnectGraceTimers s2)(d \<mapsto> graceTimerId)\<rparr>
                else s2)
      in perform [Emit (ConnectionRemoved websocket)] s3)"

definition removeConnection :: "(int \<Rightarrow> page_status) option \<Rightarrow> ws \<Rightarrow> registry \<Rightarrow> registry" where
  "removeConnection bm websocket s =
     (case authIndexStamp (sockets s websocket) of
        None \<Rightarrow> perform [Log (ClientDisconnected None), Emit (ConnectionRemoved websocket)] s
      | Some d \<Rightarrow>
          if d \<ge> 0 then
            (let s1 = perform [Log (ClientDisconnected (Some d))]
                        (s\<lparr>connectionsByAuth := (connectionsByAuth s)(d := None)\<rparr>)
             in if (case bm of None \<Rightarrow> False | Some contexts \<Rightarrow> page_gone (contexts d)) then
                  perform [Emit (ConnectionRemoved websocket)]
                    (clear_grace_timer d (perform [Log (PageClosedSkipping d)] s1))
                else start_grace_timer d websocket s1)
          else perform [Log (ClientDisconnected None), Emit (ConnectionRemoved websocket)] s)"

text \<open>
  What the recovery callback does when it is called: it throws before returning, or it
  returns a promise. How the race of that promise against the timeout promise ends. The
  \<open>catch\<close> block of lines 179-182 reads \<open>error.message\<close> of the thrown value or rejection
  reason: \<open>ThrowsSync msg\<close> and \<open>Rejected msg\<close> are the cases where that text is
  \<open>msg\<close>; \<open>ThrowsUnreadable\<close> and \<open>RejectedUnreadable\<close> are the cases where reading
  it throws a TypeError (the value is \<open>null\<close> or \<open>undefined\<close>, or its message has no
  string conversion). The timeout promise rejects with an \<open>Error\<close>.
\<close>

datatype callback_call = ThrowsSync string | ThrowsUnreadable | ReturnsPromise

datatype race_outcome = Resolved | Rejected string | RejectedUnreadable | TimedOut

definition isAccountReconnecting :: "int \<Rightarrow> registry \<Rightarrow> bool" where
  "isAccountReconnecting d s = (case reconnectingAccounts s d of None \<Rightarrow> False | Some b \<Rightarrow> b)"

text \<open>
  The parts of the async function given to \<open>setTimeout\<close> in \<open>_removeConnection\<close>:
  \<open>expiry_queues\<close> is lines 141-156, \<open>begin_attempt\<close> lines 161-168,
  \<open>await_race\<close> lines 169-175 (the timeout timer is set and the function is suspended,
  recorded in \<open>suspended\<close> under that timer), \<open>finally_block\<close> lines 183-188 (its
  argument is \<open>timeoutId\<close>, \<open>None\<close> while it is still undefined) and \<open>finish_grace\<close>
  lines 191-193.
\<close>

definition expiry_queues :: "int option \<Rightarrow> int \<Rightarrow> registry \<Rightarrow> registry" where
  "expiry_queues g d s =
     (let s1 = perform [Log (GraceEnded d)] s
      in if d = currentAuthIndex g then closeAllMessageQueues s1
         else perform [Log (KeepingQueues d)] s1)"

definition begin_attempt :: "int \<Rightarrow> registry \<Rightarrow> registry" where
  "begin_attempt d s =
     perform [SetReconnecting d, Log (AttemptingReconnect d), InvokeCallback d]
       (s\<lparr>reconnectingAccounts := (reconnectingAccounts s)(d \<mapsto> True)\<rparr>)"

definition await_race :: "int \<Rightarrow> registry \<Rightarrow> registry" where
  "await_race d s =
     (let timeoutId = nextTimer s
      in perform [SetTimeout timeoutId 55000]
           (s\<lparr>timers := (timers s)(timeoutId \<mapsto> RecoveryTimeout),
               nextTimer := Suc timeoutId,
               suspended := (suspended s)(timeoutId \<mapsto> d)\<rparr>))"

definition finally_block :: "tid option \<Rightarrow> int \<Rightarrow> registry \<Rightarrow> registry" where
  "finally_block timeoutId d s =
     (let s1 = (case timeoutId of
                  None \<Rightarrow> s
                | Some t \<Rightarrow> perform [ClearTimeout t] (s\<lparr>timers := (timers s)(t := None)\<rparr>))
      in perform [ClearReconnecting d]
           (s1\<lparr>reconnectingAccounts := (reconnectingAccounts s1)(d := None)\<rparr>))"

definition finish_grace :: "int \<Rightarrow> registry \<Rightarrow> registry" where
  "finish_grace d s =
     (perform [Emit ConnectionLost] s)\<lparr>reconnectGraceTimers := (reconnectGraceTimers s)(d := None)\<rparr>"

text \<open>
  The async function up to its \<open>await\<close>. When the recovery callback returns a promise the
  function is suspended. When the callback throws, the \<open>catch\<close> block logs the message,
  the \<open>finally\<close> block runs and the function goes on to its end. If the \<open>catch\<close> block
  itself throws, the \<open>finally\<close> block still runs, lines 191-193 are skipped and the error
  leaves the function: \<open>Inl\<close>, with the state at that moment.
\<close>

definition graceTimerHandler ::
  "int option \<Rightarrow> callback_call \<Rightarrow> int \<Rightarrow> registry \<Rightarrow> (js_error \<times> registry) + registry" where
  "graceTimerHandler g call d s =
     (let s2 = expiry_queues g d s
      in if onConnectionLostCallback s2 \<and> \<not> isAccountReconnecting d s2 then
           (let s3 = begin_attempt d s2
            in case call of
                 ThrowsSync msg \<Rightarrow>
                   Inr (finish_grace d
                          (finally_block None d (perform [Log (ReconnectFailed d msg)] s3)))
               | ThrowsUnreadable \<Rightarrow> Inl (TypeError, finally_block None d s3)
               | ReturnsPromise \<Rightarrow> Inr (await_race d s3))
         else Inr (finish_grace d s2))"

text \<open>
  The rest of that function, run when the race settles: the log line of line 176 or of the
  \<open>catch\<close> block (\<open>None\<close> when the \<open>catch\<close> block throws), the \<open>finally\<close> block, and
  lines 191-193 unless an error is under way.
\<close>

definition outcome_log :: "int \<Rightarrow> race_outcome \<Rightarrow> log_entry option" where
  "outcome_log d out =
     (case out of
        Resolved \<Rightarrow> Some (ReconnectCompleted d)
      | Rejected msg \<Rightarrow> Some (ReconnectFailed d msg)
      | RejectedUnreadable \<Rightarrow> None
      | TimedOut \<Rightarrow> Some (ReconnectFailed d ''Lightweight reconnect timed out''))"

definition graceTimerResume ::
  "race_outcome \<Rightarrow> tid \<Rightarrow> registry \<Rightarrow> (js_error \<times> registry) + registry" where
  "graceTimerResume out timeoutId s =
     (case suspended s timeoutId of
        None \<Rightarrow> Inr s
      | Some d \<Rightarrow>
          (let s0 = s\<lparr>suspended := (suspended s)(timeoutId := None)\<rparr>
           in case outcome_log d out of
                Some entry \<Rightarrow>
                  Inr (finish_grace d (finally_block (Some timeoutId) d (perform [Log entry] s0)))
              | None \<Rightarrow> Inl (TypeError, finally_block (Some timeoutId) d s0)))"

text \<open>
  The registry after the async function has run: an error that left the function is an
  unhandled rejection, recorded in the trace; the state is the one it left behind.
\<close>

definition state_after :: "(js_error \<times> registry) + registry \<Rightarrow> registry" where
  "state_after r = (case r of Inl (e, s) \<Rightarrow> perform [UnhandledRejection e] s | Inr s \<Rightarrow> s)"

definition graceTimerCallback :: "int option \<Rightarrow> callback_call \<Rightarrow> int \<Rightarrow> registry \<Rightarrow> registry" where
  "graceTimerCallback g call d s = state_after (graceTimerHandler g call d s)"

definition recoverySettled :: "race_outcome \<Rightarrow> tid \<Rightarrow> registry \<Rightarrow> registry" where
  "recoverySettled out timeoutId s = state_after (graceTimerResume out timeoutId s)"

definition fireTimer :: "int option \<Rightarrow> callback_call \<Rightarrow> tid \<Rightarrow> registry \<Rightarrow> registry" where
  "fireTimer g call t s =
     (case timers s t of
        None \<Rightarrow> s
      | Some (GraceTimer d) \<Rightarrow> graceTimerCallback g call d (s\<lparr>timers := (timers s)(t := None)\<rparr>)
      | Some RecoveryTimeout \<Rightarrow> recoverySettled TimedOut t (s\<lparr>timers := (timers s)(t := None)\<rparr>))"

definition closeConnectionByAuth :: "int \<Rightarrow> registry \<Rightarrow> registry" where
  "closeConnectionByAuth a s =
     (case connectionsByAuth s a of
        Some connection \<Rightarrow>
          (let s1 = ws_close connection None (perform [Log (ClosingConnection a)] s);
               s2 = (case closeThrows (sockets s1 connection) of
                       None \<Rightarrow> s1
                     | Some msg \<Rightarrow> perform [Log (ErrorClosing a msg)] s1)
           in clear_grace_timer a (s2\<lparr>connectionsByAuth := (connectionsByAuth s2)(a := None)\<rparr>))
      | None \<Rightarrow> perform [Log (NoConnectionToClose a)] s)"

section \<open>Routing of inbound frames\<close>

text \<open>
  Reading a property of a parsed value: \<open>null\<close> raises a TypeError, an object gives
  the property or \<open>undefined\<close> (\<open>None\<close>), and the other values have neither
  \<open>request_id\<close> nor \<open>event_type\<close>.
\<close>

fun property :: "json \<Rightarrow> string \<Rightarrow> js_error + json option" where
  "property JNull k = Inl TypeError"
| "property (JObj kvs) k = Inr (map_of kvs k)"
| "property v k = Inr None"

fun truthy :: "json option \<Rightarrow> bool" where
  "truthy None = False"
| "truthy (Some JNull) = False"
| "truthy (Some (JBool b)) = b"
| "truthy (Some (JNum n)) = (n \<noteq> Finite 0)"
| "truthy (Some (JStr s)) = (s \<noteq> [])"
| "truthy (Some (JArr xs)) = True"
| "truthy (Some (JObj kvs)) = True"

text \<open>
  A template literal converts the value it embeds to a string, which throws a TypeError for
  an object that has a property \<open>toString\<close> of its own (a parsed value is never a
  function, and \<open>Object.prototype.valueOf\<close> returns the object), and for an array with
  such an element (\<open>join\<close> converts every element but \<open>null\<close>). \<open>undefined\<close> and
  the primitive values have a string.
\<close>

fun to_string_throws :: "json \<Rightarrow> bool" where
  "to_string_throws (JObj kvs) = (map_of kvs ''toString'' \<noteq> None)"
| "to_string_throws (JArr xs) = list_ex to_string_throws xs"
| "to_string_throws v = False"

fun template_throws :: "json option \<Rightarrow> bool" where
  "template_throws None = False"
| "template_throws (Some v) = to_string_throws v"

text \<open>
  \<open>this.messageQueues.get(requestId)\<close>. The keys of the map are the strings given to
  \<open>createMessageQueue\<close>; a \<open>Map\<close> compares keys without conversion, so only a string
  finds an entry.
\<close>

fun messageQueues_get :: "json option \<Rightarrow> registry \<Rightarrow> qid option" where
  "messageQueues_get (Some (JStr k)) s = map_of (messageQueues s) k"
| "messageQueues_get v s = None"

definition STREAM_END :: json where
  "STREAM_END = JObj [(''type'', JStr ''STREAM_END'')]"

definition queue_enqueue :: "qid \<Rightarrow> json \<Rightarrow> registry \<Rightarrow> registry" where
  "queue_enqueue q m s =
     perform [QueueEnqueue q m] (s\<lparr>queues := (queues s)(q := enqueue m (queues s q))\<rparr>)"

text \<open>
  \<open>_routeMessage\<close> (lines 222-236). \<open>Inl\<close> is an exception, with the state at the moment
  it is thrown: here and in the next definition the TypeError of reading a property of
  \<open>null\<close> and the TypeError of the template literals of lines 215 and 234.
\<close>

definition routeMessage :: "json \<Rightarrow> qid \<Rightarrow> registry \<Rightarrow> (js_error \<times> registry) + registry" where
  "routeMessage message queue s =
     (case property message ''event_type'' of
        Inl e \<Rightarrow> Inl (e, s)
      | Inr event_type \<Rightarrow>
          if event_type = Some (JStr ''response_headers'')
             \<or> event_type = Some (JStr ''chunk'')
             \<or> event_type = Some (JStr ''error'')
          then Inr (queue_enqueue queue message s)
          else if event_type = Some (JStr ''stream_close'')
          then Inr (queue_enqueue queue STREAM_END s)
          else if template_throws event_type then Inl (TypeError, s)
          else Inr (perform [Log (UnknownEventType event_type)] s))"

text \<open>
  The body of the \<open>try\<close> block of \<open>_handleIncomingMessage\<close> (lines 205-216).
  \<open>JSON.parse\<close> is an argument: \<open>None\<close> is its SyntaxError. The \<open>catch\<close> block of
  line 217 turns every exception of the body into the log line "Failed to parse".
\<close>

definition handleIncomingMessage_try ::
  "(string \<Rightarrow> json option) \<Rightarrow> string \<Rightarrow> registry \<Rightarrow> (js_error \<times> registry) + registry" where
  "handleIncomingMessage_try JSON_parse messageData s =
     (case JSON_parse messageData of
        None \<Rightarrow> Inl (SyntaxError, s)
      | Some parsedMessage \<Rightarrow>
          (case property parsedMessage ''request_id'' of
             Inl e \<Rightarrow> Inl (e, s)
           | Inr requestId \<Rightarrow>
               if \<not> truthy requestId then Inr (perform [Log MissingRequestId] s)
               else (case messageQueues_get requestId s of
                       Some queue \<Rightarrow> routeMessage parsedMessage queue s
                     | None \<Rightarrow>
                         if template_throws requestId then Inl (TypeError, s)
                         else Inr (perform [Log (UnknownRequestId requestId)] s))))"

definition handleIncomingMessage ::
  "(string \<Rightarrow> json option) \<Rightarrow> string \<Rightarrow> registry \<Rightarrow> js_error + registry" where
  "handleIncomingMessage JSON_parse messageData s =
     (case handleIncomingMessage_try JSON_parse messageData s of
        Inl (error, s') \<Rightarrow> Inr (perform [Log ParseFailed] s')
      | Inr s' \<Rightarrow> Inr s')"

section \<open>Events of a connection\<close>

text \<open>
  A connection is a Node event emitter: emitting an event calls the listeners registered
  for it, in registration order, and an exception of a listener ends the emission. The
  message listener is \<open>_handleIncomingMessage\<close>, the close listener is
  \<open>_removeConnection\<close>; the error listener only writes a log line and is left out.
\<close>

fun emit_message ::
  "(string \<Rightarrow> json option) \<Rightarrow> string \<Rightarrow> listener list \<Rightarrow> registry \<Rightarrow> js_error + registry" where
  "emit_message JSON_parse messageData [] s = Inr s"
| "emit_message JSON_parse messageData (l # ls) s =
     (if l = OnMessage then
        (case handleIncomingMessage JSON_parse messageData s of
           Inl e \<Rightarrow> Inl e
         | Inr s' \<Rightarrow> emit_message JSON_parse messageData ls s')
      else emit_message JSON_parse messageData ls s)"

definition socket_message ::
  "(string \<Rightarrow> json option) \<Rightarrow> ws \<Rightarrow> string \<Rightarrow> registry \<Rightarrow> js_error + registry" where
  "socket_message JSON_parse websocket messageData s =
     emit_message JSON_parse messageData (listeners (sockets s websocket)) s"

fun emit_close :: "(int \<Rightarrow> page_status) option \<Rightarrow> ws \<Rightarrow> listener list \<Rightarrow> registry \<Rightarrow> registry" where
  "emit_close bm websocket [] s = s"
| "emit_close bm websocket (l # ls) s =
     (if l = OnClose then emit_close bm websocket ls (removeConnection bm websocket s)
      else emit_close bm websocket ls s)"

definition socket_close :: "(int \<Rightarrow> page_status) option \<Rightarrow> ws \<Rightarrow> registry \<Rightarrow> registry" where
  "socket_close bm websocket s = emit_close bm websocket (listeners (sockets s websocket)) s"

section \<open>The registry as a transition system\<close>

text \<open>
  What can happen to a registry: the calls of its public methods, the events of the
  connections it listens to, the firing of a timer it has set and the settling of a
  recovery callback it waits for. The readings of the outside world travel with the
  event: the current tenant (\<open>getCurrentAuthIndex\<close>), the page status known to the
  browser manager, what the recovery callback does when called. \<open>CallbackSettles\<close> is the
  recovery promise resolving (\<open>None\<close>) or rejecting with a reason whose message reads
  \<open>msg\<close>; \<open>CallbackRejectsUnreadable\<close> is a rejection whose reason has no readable
  message. Handlers run one at a time and to their end, or to their \<open>await\<close>, so a run is
  a list of events.
\<close>

datatype event =
    AddConnection "int option" ws client_info
  | SocketCloses "(int \<Rightarrow> page_status) option" ws
  | SocketMessage ws string
  | CloseConnectionByAuth int
  | GetConnectionByAuth int
  | TimerFires "int option" callback_call tid
  | CallbackSettles tid "string option"
  | CallbackRejectsUnreadable tid
  | CreateMessageQueue string
  | RemoveMessageQueue string
  | CloseAllMessageQueues

fun step :: "(string \<Rightarrow> json option) \<Rightarrow> event \<Rightarrow> registry \<Rightarrow> registry" where
  "step JSON_parse (AddConnection g websocket clientInfo) s = addConnection g websocket clientInfo s"
| "step JSON_parse (SocketCloses bm websocket) s = socket_close bm websocket s"
| "step JSON_parse (SocketMessage websocket messageData) s =
     (case socket_message JSON_parse websocket messageData s of Inr s' \<Rightarrow> s' | Inl e \<Rightarrow> s)"
| "step JSON_parse (CloseConnectionByAuth a) s = closeConnectionByAuth a s"
| "step JSON_parse (GetConnectionByAuth a) s = snd (getConnectionByAuth a s)"
| "step JSON_parse (TimerFires g call t) s = fireTimer g call t s"
| "step JSON_parse (CallbackSettles timeoutId result) s =
     recoverySettled (case result of None \<Rightarrow> Resolved | Some msg \<Rightarrow> Rejected msg) timeoutId s"
| "step JSON_parse (CallbackRejectsUnreadable timeoutId) s =
     recoverySettled RejectedUnreadable timeoutId s"
| "step JSON_parse (CreateMessageQueue requestId) s = createMessageQueue requestId s"
| "step JSON_parse (RemoveMessageQueue requestId) s = removeMessageQueue requestId s"
| "step JSON_parse CloseAllMessageQueues s = closeAllMessageQueues s"

definition run :: "(string \<Rightarrow> json option) \<Rightarrow> event list \<Rightarrow> registry \<Rightarrow> registry" where
  "run JSON_parse es s = foldl (\<lambda>r e. step JSON_parse e r) s es"

section \<open>Notions used in the statements\<close>

text \<open>
A sequence of \<open>addConnection\<close> calls that carry the same tenant id.
\<close>

definition addConnections :: "int \<Rightarrow> (int option \<times> ws \<times> string) list \<Rightarrow> registry \<Rightarrow> registry" where
  "addConnections a calls s =
     foldl (\<lambda>r (g, websocket, addr). addConnection g websocket \<lparr>authIndex = JSInt a, address = addr\<rparr> r)
       s calls"

text \<open>
Handling raw frames one after the other, as successive message events do.
\<close>

fun handle_frames :: "(string \<Rightarrow> json option) \<Rightarrow> string list \<Rightarrow> registry \<Rightarrow> js_error + registry" where
  "handle_frames JSON_parse [] s = Inr s"
| "handle_frames JSON_parse (d # ds) s =
     (case handleIncomingMessage JSON_parse d s of
        Inl e \<Rightarrow> Inl e
      | Inr s' \<Rightarrow> handle_frames JSON_parse ds s')"

text \<open>
  A parsed frame bears the request id \<open>rid\<close> when it is an object whose \<open>request_id\<close>
  is that string; its kind is its \<open>event_type\<close>.
\<close>

fun bears :: "string \<Rightarrow> json \<Rightarrow> bool" where
  "bears rid (JObj kvs) = (map_of kvs ''request_id'' = Some (JStr rid))"
| "bears rid v = False"

fun event_type_of :: "json \<Rightarrow> json option" where
  "event_type_of (JObj kvs) = map_of kvs ''event_type''"
| "event_type_of v = None"

text \<open>
  The routing as section 4.2 of the specification words it, to be compared with
  \<open>routeMessage\<close>: a headers, chunk or error frame is delivered as it is, a stream_close
  frame is delivered as the end-of-stream sentinel, any other frame is not delivered.
  \<open>spec_effects\<close> adds the log line that the code writes for a dropped frame (the
  unknown kind, or "Failed to parse" when the kind has no string conversion), and
  \<open>deliver\<close> is the resulting change of the registry.
\<close>

definition spec_delivery :: "json \<Rightarrow> json list" where
  "spec_delivery frame =
     (if event_type_of frame \<in> {Some (JStr ''response_headers''), Some (JStr ''chunk''), Some (JStr ''error'')}
      then [frame]
      else if event_type_of frame = Some (JStr ''stream_close'') then [STREAM_END]
      else [])"

definition spec_effects :: "qid \<Rightarrow> json \<Rightarrow> effect list" where
  "spec_effects q frame =
     (if spec_delivery frame = [] then
        [Log (if template_throws (event_type_of frame) then ParseFailed
              else UnknownEventType (event_type_of frame))]
      else map (QueueEnqueue q) (spec_delivery frame))"

definition deliver :: "qid \<Rightarrow> json \<Rightarrow> registry \<Rightarrow> registry" where
  "deliver q frame s =
     perform (spec_effects q frame)
       (s\<lparr>queues := (queues s)(q := foldl (\<lambda>qu m. enqueue m qu) (queues s q) (spec_delivery frame))\<rparr>)"

text \<open>
The listeners of a connection that was registered \<open>n\<close> times.
\<close>

definition registrations :: "nat \<Rightarrow> listener list" where
  "registrations n = concat (replicate n [OnMessage, OnClose, OnError])"

text \<open>
Effects that close a connection or remove its listeners; invocations of the recovery callback.
\<close>

definition socket_call :: "ws \<Rightarrow> effect \<Rightarrow> bool" where
  "socket_call w e = (case e of WsClose w' args \<Rightarrow> w' = w | WsRemoveAllListeners w' \<Rightarrow> w' = w | _ \<Rightarrow> False)"

fun is_invoke :: "effect \<Rightarrow> bool" where
  "is_invoke (InvokeCallback d) = True"
| "is_invoke e = False"

text \<open>
The queue store after every queue of the queue map was closed.
\<close>

definition closed_all :: "(string \<times> qid) list \<Rightarrow> (qid \<Rightarrow> message_queue) \<Rightarrow> qid \<Rightarrow> message_queue" where
  "closed_all mq qs q = (if q \<in> snd ` set mq then close_queue (qs q) else qs q)"

text \<open>
  The trace of \<open>closeAllMessageQueues\<close> and of the first part of the grace callback, and
  the condition under which the grace callback starts a recovery attempt.
\<close>

definition close_effects :: "registry \<Rightarrow> effect list" where
  "close_effects s =
     (if messageQueues s = [] then []
      else Log (ForceClosingQueues (length (messageQueues s)))
             # map QueueClose (map snd (messageQueues s)))"

definition expiry_prefix :: "int option \<Rightarrow> int \<Rightarrow> registry \<Rightarrow> effect list" where
  "expiry_prefix g d s =
     Log (GraceEnded d)
       # (if d = currentAuthIndex g then close_effects s else [Log (KeepingQueues d)])"

definition attempts :: "int \<Rightarrow> registry \<Rightarrow> bool" where
  "attempts d s = (onConnectionLostCallback s \<and> \<not> isAccountReconnecting d s)"

text \<open>
  The trace of a recovery attempt after the callback was invoked, and the trace of the rest
  of the grace callback once the race has settled.
\<close>

definition attempt_tail :: "callback_call \<Rightarrow> int \<Rightarrow> tid \<Rightarrow> effect list" where
  "attempt_tail call d timeoutId =
     (case call of
        ThrowsSync msg \<Rightarrow>
          [Log (ReconnectFailed d msg), ClearReconnecting d, Emit ConnectionLost]
      | ThrowsUnreadable \<Rightarrow> [ClearReconnecting d, UnhandledRejection TypeError]
      | ReturnsPromise \<Rightarrow> [SetTimeout timeoutId 55000])"

definition settle_effects :: "race_outcome \<Rightarrow> int \<Rightarrow> tid \<Rightarrow> effect list" where
  "settle_effects out d timeoutId =
     (case outcome_log d out of
        Some entry \<Rightarrow>
          [Log entry, ClearTimeout timeoutId, ClearReconnecting d, Emit ConnectionLost]
      | None \<Rightarrow> [ClearTimeout timeoutId, ClearReconnecting d, UnhandledRejection TypeError])"

text \<open>
  Invariants of the runs: a suspended grace callback of a tenant has the reconnecting flag
  of the tenant set and is the only one of that tenant; a tenant with a grace timer entry has
  no registered connection.
\<close>

definition recovery_inv :: "registry \<Rightarrow> bool" where
  "recovery_inv s =
     ((\<forall>k d. suspended s k = Some d \<longrightarrow> reconnectingAccounts s d = Some True)
      \<and> (\<forall>k k' d. suspended s k = Some d \<and> suspended s k' = Some d \<longrightarrow> k = k'))"

definition timer_excludes_connection :: "registry \<Rightarrow> bool" where
  "timer_excludes_connection s =
     (\<forall>X. reconnectGraceTimers s X \<noteq> None \<longrightarrow> connectionsByAuth s X = None)"

section \<open>A scenario\<close>

text \<open>
  A parser for the few frames of the examples, and three states of a registry with a
  recovery callback: tenant 0 has lost its connection and its grace timer 0 is pending
  (\<open>lost_once\<close>); the timer has fired and the recovery is awaited, the tenant has
  reconnected and lost the connection again, so that grace timer 2 is pending
  (\<open>second_loss\<close>); then the recovery callback has resolved (\<open>stale_completion\<close>).
\<close>

definition example_parse :: "string \<Rightarrow> json option" where
  "example_parse d =
     (if d = ''c1'' then
        Some (JObj [(''request_id'', JStr ''r1''), (''event_type'', JStr ''chunk''), (''data'', JStr ''a'')])
      else if d = ''close'' then
        Some (JObj [(''request_id'', JStr ''r1''), (''event_type'', JStr ''stream_close'')])
      else if d = ''ping'' then
        Some (JObj [(''request_id'', JStr ''r1''), (''event_type'', JStr ''ping'')])
      else if d = ''r2'' then
        Some (JObj [(''request_id'', JStr ''r2''), (''event_type'', JStr ''chunk'')])
      else if d = ''{}'' then Some (JObj [])
      else if d = ''null'' then Some JNull
      else None)"

definition lost_once :: registry where
  "lost_once =
     socket_close None 1
       (addConnection (Some 0) 1 \<lparr>authIndex = JSInt 0, address = ''x''\<rparr>
          (createMessageQueue ''r1'' (new_registry True)))"

definition second_loss :: registry where
  "second_loss =
     run example_parse
       [TimerFires (Some 0) ReturnsPromise 0,
        AddConnection (Some 0) 2 \<lparr>authIndex = JSInt 0, address = ''y''\<rparr>,
        SocketCloses None 2]
       lost_once"

definition stale_completion :: registry where
  "stale_completion = step example_parse (CallbackSettles 1 None) second_loss"

text \<open>
  The state in which the grace callback of tenant 0 waits for the recovery callback, and a
  parser for three unusual frames: one whose request_id is the empty string, one whose
  request_id is an object without a string conversion, one whose event_type is such an
  object.
\<close>

definition awaiting_recovery :: registry where
  "awaiting_recovery = fireTimer (Some 0) ReturnsPromise 0 lost_once"

definition odd_parse :: "string \<Rightarrow> json option" where
  "odd_parse d =
     (if d = ''emptyid'' then
        Some (JObj [(''request_id'', JStr ''''), (''event_type'', JStr ''chunk'')])
      else if d = ''nostring'' then
        Some (JObj [(''request_id'', JObj [(''toString'', JNull)])])
      else if d = ''oddkind'' then
        Some (JObj [(''request_id'', JStr ''r1''), (''event_type'', JObj [(''toString'', JNull)])])
      else None)"

section \<open>Basic facts\<close>

lemma perform_simps [simp]:
  "connectionsByAuth (perform es s) = connectionsByAuth s"
  "messageQueues (perform es s) = messageQueues s"
  "reconnectGraceTimers (perform es s) = reconnectGraceTimers s"
  "reconnectingAccounts (perform es s) = reconnectingAccounts s"
  "onConnectionLostCallback (perform es s) = onConnectionLostCallback s"
  "sockets (perform es s) = sockets s"
  "queues (perform es s) = queues s"
  "nextQueue (perform es s) = nextQueue s"
  "timers (perform es s) = timers s"
  "nextTimer (perform es s) = nextTimer s"
  "suspended (perform es s) = suspended s"
  "trace (perform es s) = trace s @ es"
  by (simp_all add: perform_def)

lemma addConnection_valid:
  "0 \<le> a \<Longrightarrow> addConnection g w \<lparr>authIndex = JSInt a, address = addr\<rparr> s =
     perform [Emit (ConnectionAdded w)]
       (register_handlers w (store_connection a w addr
          (clear_grace_on_reconnect g a (replace_existing a w s))))"
  by (simp add: addConnection_def invalid_authIndex_def)

lemma addConnection_lookup:
  "0 \<le> a \<Longrightarrow> connectionsByAuth (addConnection g w \<lparr>authIndex = JSInt a, address = addr\<rparr> s) a = Some w"
  by (simp add: addConnection_valid register_handlers_def store_connection_def Let_def)

lemma addConnections_snoc:
  "addConnections a (calls @ [(g, w, addr)]) s =
     addConnection g w \<lparr>authIndex = JSInt a, address = addr\<rparr> (addConnections a calls s)"
  by (simp add: addConnections_def)

lemma addConnections_last:
  "0 \<le> a \<Longrightarrow> calls \<noteq> [] \<Longrightarrow>
     connectionsByAuth (addConnections a calls s) a = Some (fst (snd (last calls)))"
  by (cases calls rule: rev_cases) (auto simp: addConnections_snoc addConnection_lookup)

lemma close_each_fields [simp]:
  "connectionsByAuth (close_each qs s) = connectionsByAuth s"
  "messageQueues (close_each qs s) = messageQueues s"
  "reconnectGraceTimers (close_each qs s) = reconnectGraceTimers s"
  "reconnectingAccounts (close_each qs s) = reconnectingAccounts s"
  "onConnectionLostCallback (close_each qs s) = onConnectionLostCallback s"
  "sockets (close_each qs s) = sockets s"
  "nextQueue (close_each qs s) = nextQueue s"
  "timers (close_each qs s) = timers s"
  "nextTimer (close_each qs s) = nextTimer s"
  "suspended (close_each qs s) = suspended s"
  "trace (close_each qs s) = trace s @ map QueueClose qs"
  unfolding close_each_def by (induction qs arbitrary: s) simp_all

lemma close_each_queues:
  "queues (close_each qs s) q = (if q \<in> set qs then close_queue (queues s q) else queues s q)"
  unfolding close_each_def
  by (induction qs arbitrary: s) (auto simp: close_queue_def)

lemma closeAll_fields [simp]:
  "connectionsByAuth (closeAllMessageQueues s) = connectionsByAuth s"
  "messageQueues (closeAllMessageQueues s) = []"
  "reconnectGraceTimers (closeAllMessageQueues s) = reconnectGraceTimers s"
  "reconnectingAccounts (closeAllMessageQueues s) = reconnectingAccounts s"
  "onConnectionLostCallback (closeAllMessageQueues s) = onConnectionLostCallback s"
  "sockets (closeAllMessageQueues s) = sockets s"
  "nextQueue (closeAllMessageQueues s) = nextQueue s"
  "timers (closeAllMessageQueues s) = timers s"
  "nextTimer (closeAllMessageQueues s) = nextTimer s"
  "suspended (closeAllMessageQueues s) = suspended s"
  by (simp_all add: closeAllMessageQueues_def)

lemma closeAll_trace:
  "trace (closeAllMessageQueues s) =
     trace s @ (if messageQueues s = [] then []
                else Log (ForceClosingQueues (length (messageQueues s)))
                       # map QueueClose (map snd (messageQueues s)))"
  by (simp add: closeAllMessageQueues_def)

lemma closeAll_queues:
  "queues (closeAllMessageQueues s) q =
     (if q \<in> snd ` set (messageQueues s) then close_queue (queues s q) else queues s q)"
  by (auto simp: closeAllMessageQueues_def close_each_queues)

lemma clear_grace_on_reconnect_trace:
  "\<exists>es. trace (clear_grace_on_reconnect g a s) = trace s @ es"
  by (simp add: clear_grace_on_reconnect_def Let_def closeAll_trace split: option.splits)

lemma replace_existing_distinct:
  assumes "connectionsByAuth s a = Some w0" "w0 \<noteq> w"
  shows "\<exists>es. trace (replace_existing a w s) =
            trace s @ [Log (DuplicateConnection a), WsRemoveAllListeners w0,
                       WsClose w0 (Some (1000, ''Replaced by new connection''))] @ es
          \<and> set es \<subseteq> range (\<lambda>m. Log (ErrorClosingOld m))"
    and "listeners (sockets (replace_existing a w s) w0) = []"
  using assms
  by (auto simp: replace_existing_def Let_def ws_close_def split: option.splits)

lemma addConnection_replaces:
  assumes "0 \<le> a" "connectionsByAuth s a = Some w0" "w0 \<noteq> w"
  shows "listeners (sockets (addConnection g w \<lparr>authIndex = JSInt a, address = addr\<rparr> s) w0) = []"
    and "\<exists>mid rest. trace (addConnection g w \<lparr>authIndex = JSInt a, address = addr\<rparr> s) =
            trace s @ [Log (DuplicateConnection a), WsRemoveAllListeners w0,
                       WsClose w0 (Some (1000, ''Replaced by new connection''))]
              @ mid @ [StoreConnection a w] @ rest"
proof -
  let ?r1 = "replace_existing a w s"
  let ?r2 = "clear_grace_on_reconnect g a ?r1"
  have l1: "listeners (sockets ?r1 w0) = []"
    using assms replace_existing_distinct(2) by blast
  have s2: "sockets ?r2 = sockets ?r1"
    by (simp add: clear_grace_on_reconnect_def Let_def split: option.splits)
  show "listeners (sockets (addConnection g w \<lparr>authIndex = JSInt a, address = addr\<rparr> s) w0) = []"
    using assms l1 s2
    by (simp add: addConnection_valid register_handlers_def store_connection_def Let_def)
  obtain es1 where t1: "trace ?r1 = trace s @ [Log (DuplicateConnection a), WsRemoveAllListeners w0,
                       WsClose w0 (Some (1000, ''Replaced by new connection''))] @ es1"
    using replace_existing_distinct(1)[OF assms(2,3)] by blast
  obtain es2 where t2: "trace ?r2 = trace ?r1 @ es2"
    using clear_grace_on_reconnect_trace by blast
  have "trace (addConnection g w \<lparr>authIndex = JSInt a, address = addr\<rparr> s) =
          trace ?r2 @ [StoreConnection a w] @
            [Log (ClientConnected addr a), WsOn w OnMessage, WsOn w OnClose, WsOn w OnError,
             Emit (ConnectionAdded w)]"
    using assms(1)
    by (simp add: addConnection_valid register_handlers_def store_connection_def Let_def)
  then have "trace (addConnection g w \<lparr>authIndex = JSInt a, address = addr\<rparr> s) =
          trace s @ [Log (DuplicateConnection a), WsRemoveAllListeners w0,
                       WsClose w0 (Some (1000, ''Replaced by new connection''))]
              @ (es1 @ es2) @ [StoreConnection a w] @
            [Log (ClientConnected addr a), WsOn w OnMessage, WsOn w OnClose, WsOn w OnError,
             Emit (ConnectionAdded w)]"
    by (simp add: t1 t2)
  then show "\<exists>mid rest. trace (addConnection g w \<lparr>authIndex = JSInt a, address = addr\<rparr> s) =
            trace s @ [Log (DuplicateConnection a), WsRemoveAllListeners w0,
                       WsClose w0 (Some (1000, ''Replaced by new connection''))]
              @ mid @ [StoreConnection a w] @ rest"
    by blast
qed

lemmas run_defs =
  addConnection_def invalid_authIndex_def ws_close_def replace_existing_def
  clear_grace_on_reconnect_def register_handlers_def store_connection_def
  getConnectionByAuth_def closeAllMessageQueues_def close_each_def createMessageQueue_def
  removeMessageQueue_def removeConnection_def start_grace_timer_def clear_grace_timer_def
  page_gone_def finish_grace_def isAccountReconnecting_def graceTimerCallback_def
  graceTimerHandler_def graceTimerResume_def state_after_def expiry_queues_def
  begin_attempt_def await_race_def finally_block_def
  outcome_log_def recoverySettled_def fireTimer_def closeConnectionByAuth_def
  queue_enqueue_def routeMessage_def handleIncomingMessage_try_def handleIncomingMessage_def
  socket_message_def socket_close_def new_registry_def new_socket_def new_queue_def
  perform_def currentAuthIndex_def enqueue_def close_queue_def STREAM_END_def Let_def

lemma handleIncomingMessage_total: "\<exists>s'. handleIncomingMessage P d s = Inr s'"
  by (auto simp: handleIncomingMessage_def split: sum.splits prod.splits)

lemma handleIncomingMessage_registered:
  assumes "P d = Some frame" "bears rid frame" "rid \<noteq> []" "map_of (messageQueues s) rid = Some q"
  shows "handleIncomingMessage P d s = Inr (deliver q frame s)"
  using assms
  by (cases frame)
     (auto simp: handleIncomingMessage_def handleIncomingMessage_try_def routeMessage_def
        spec_effects_def spec_delivery_def queue_enqueue_def perform_def deliver_def)

lemma deliver_messageQueues [simp]: "messageQueues (deliver q m s) = messageQueues s"
  by (simp add: deliver_def)

lemma handle_frames_registered:
  assumes "map P ds = map Some frames" "\<forall>m \<in> set frames. bears rid m" "rid \<noteq> []"
    "map_of (messageQueues s) rid = Some q"
  shows "handle_frames P ds s = Inr (foldl (\<lambda>r m. deliver q m r) s frames)"
  using assms
proof (induction ds arbitrary: frames s)
  case Nil
  then show ?case by simp
next
  case (Cons d ds)
  then obtain m ms where f: "frames = m # ms" "P d = Some m" "map P ds = map Some ms"
    by (cases frames) auto
  have h: "handleIncomingMessage P d s = Inr (deliver q m s)"
    using handleIncomingMessage_registered [of P d m rid s q] Cons.prems f by simp
  have mq: "map_of (messageQueues (deliver q m s)) rid = Some q" using Cons.prems by simp
  have "handle_frames P ds (deliver q m s) = Inr (foldl (\<lambda>r m. deliver q m r) (deliver q m s) ms)"
    using Cons.IH [OF f(3) _ Cons.prems(3) mq] Cons.prems(2) f(1) by simp
  then show ?case using h f by simp
qed

lemma foldl_deliver_queue:
  "queues (foldl (\<lambda>r m. deliver q m r) s frames) q =
     foldl (\<lambda>qu m. enqueue m qu) (queues s q) (concat (map spec_delivery frames))"
  by (induction frames arbitrary: s) (simp_all add: deliver_def)

lemma foldl_deliver_other:
  "q' \<noteq> q \<Longrightarrow> queues (foldl (\<lambda>r m. deliver q m r) s frames) q' = queues s q'"
  by (induction frames arbitrary: s) (simp_all add: deliver_def)

lemma foldl_deliver_trace:
  "trace (foldl (\<lambda>r m. deliver q m r) s frames) = trace s @ concat (map (spec_effects q) frames)"
  by (induction frames arbitrary: s) (simp_all add: deliver_def)

lemma foldl_deliver_fields:
  "messageQueues (foldl (\<lambda>r m. deliver q m r) s frames) = messageQueues s"
  "connectionsByAuth (foldl (\<lambda>r m. deliver q m r) s frames) = connectionsByAuth s"
  "reconnectGraceTimers (foldl (\<lambda>r m. deliver q m r) s frames) = reconnectGraceTimers s"
  by (induction frames arbitrary: s) (simp_all add: deliver_def)

lemma foldl_enqueue_open:
  "\<not> closed qu \<Longrightarrow> foldl (\<lambda>qu m. enqueue m qu) qu ms = qu\<lparr>items := items qu @ ms\<rparr>"
  by (induction ms arbitrary: qu) (simp_all add: enqueue_def)

lemma foldl_enqueue_closed:
  "closed qu \<Longrightarrow> foldl (\<lambda>qu m. enqueue m qu) qu ms = qu"
  by (induction ms arbitrary: qu) (simp_all add: enqueue_def)

lemma bears_not_sentinel: "bears rid m \<Longrightarrow> m \<noteq> STREAM_END"
  by (cases m) (auto simp: STREAM_END_def)

lemma example_frames:
  "map example_parse [''c1'', ''ping'', ''c1'', ''close''] =
     map Some [JObj [(''request_id'', JStr ''r1''), (''event_type'', JStr ''chunk''), (''data'', JStr ''a'')],
               JObj [(''request_id'', JStr ''r1''), (''event_type'', JStr ''ping'')],
               JObj [(''request_id'', JStr ''r1''), (''event_type'', JStr ''chunk''), (''data'', JStr ''a'')],
               JObj [(''request_id'', JStr ''r1''), (''event_type'', JStr ''stream_close'')]]"
  by (simp add: example_parse_def)

lemma emit_message_registrations:
  "emit_message P d (registrations n) s = handle_frames P (replicate n d) s"
  by (induction n arbitrary: s) (auto simp: registrations_def split: sum.splits)

lemma emit_close_registrations:
  "emit_close bm w (registrations n) s = (removeConnection bm w ^^ n) s"
  by (induction n arbitrary: s) (auto simp: registrations_def funpow_swap1)

lemma replace_existing_same:
  "connectionsByAuth s a = Some w \<Longrightarrow> replace_existing a w s = s"
  by (simp add: replace_existing_def)

lemma clear_grace_on_reconnect_fields [simp]:
  "connectionsByAuth (clear_grace_on_reconnect g a s) = connectionsByAuth s"
  "sockets (clear_grace_on_reconnect g a s) = sockets s"
  "reconnectingAccounts (clear_grace_on_reconnect g a s) = reconnectingAccounts s"
  "suspended (clear_grace_on_reconnect g a s) = suspended s"
  "nextTimer (clear_grace_on_reconnect g a s) = nextTimer s"
  "onConnectionLostCallback (clear_grace_on_reconnect g a s) = onConnectionLostCallback s"
  by (simp_all add: clear_grace_on_reconnect_def Let_def split: option.splits)

lemma clear_grace_on_reconnect_no_socket_call:
  "\<exists>es. trace (clear_grace_on_reconnect g a s) = trace s @ es \<and> list_all (\<lambda>e. \<not> socket_call w e) es"
  by (auto simp: clear_grace_on_reconnect_def Let_def closeAll_trace socket_call_def list_all_iff
      split: option.splits)

lemma registrations_snoc:
  "registrations n @ [OnMessage, OnClose, OnError] = registrations (Suc n)"
  by (induction n) (simp_all add: registrations_def)

lemma closeAll_trace_effects: "trace (closeAllMessageQueues s) = trace s @ close_effects s"
  by (simp add: closeAll_trace close_effects_def)

lemma close_effects_perform [simp]: "close_effects (perform es s) = close_effects s"
  by (simp add: close_effects_def)

lemma closeAll_queues_eq: "queues (closeAllMessageQueues s) = closed_all (messageQueues s) (queues s)"
  by (rule ext) (simp add: closeAll_queues closed_all_def)

lemma expiry_queues_fields [simp]:
  "connectionsByAuth (expiry_queues g d s) = connectionsByAuth s"
  "reconnectGraceTimers (expiry_queues g d s) = reconnectGraceTimers s"
  "reconnectingAccounts (expiry_queues g d s) = reconnectingAccounts s"
  "onConnectionLostCallback (expiry_queues g d s) = onConnectionLostCallback s"
  "sockets (expiry_queues g d s) = sockets s"
  "nextQueue (expiry_queues g d s) = nextQueue s"
  "timers (expiry_queues g d s) = timers s"
  "nextTimer (expiry_queues g d s) = nextTimer s"
  "suspended (expiry_queues g d s) = suspended s"
  "messageQueues (expiry_queues g d s) = (if d = currentAuthIndex g then [] else messageQueues s)"
  "queues (expiry_queues g d s) =
     (if d = currentAuthIndex g then closed_all (messageQueues s) (queues s) else queues s)"
  "trace (expiry_queues g d s) = trace s @ expiry_prefix g d s"
  by (simp_all add: expiry_queues_def Let_def closeAll_queues_eq closeAll_trace_effects
      expiry_prefix_def)

lemma begin_attempt_fields [simp]:
  "connectionsByAuth (begin_attempt d s) = connectionsByAuth s"
  "messageQueues (begin_attempt d s) = messageQueues s"
  "reconnectGraceTimers (begin_attempt d s) = reconnectGraceTimers s"
  "onConnectionLostCallback (begin_attempt d s) = onConnectionLostCallback s"
  "sockets (begin_attempt d s) = sockets s"
  "queues (begin_attempt d s) = queues s"
  "nextQueue (begin_attempt d s) = nextQueue s"
  "timers (begin_attempt d s) = timers s"
  "nextTimer (begin_attempt d s) = nextTimer s"
  "suspended (begin_attempt d s) = suspended s"
  "reconnectingAccounts (begin_attempt d s) = (reconnectingAccounts s)(d \<mapsto> True)"
  "trace (begin_attempt d s) =
     trace s @ [SetReconnecting d, Log (AttemptingReconnect d), InvokeCallback d]"
  by (simp_all add: begin_attempt_def)

lemma await_race_fields [simp]:
  "connectionsByAuth (await_race d s) = connectionsByAuth s"
  "messageQueues (await_race d s) = messageQueues s"
  "reconnectGraceTimers (await_race d s) = reconnectGraceTimers s"
  "reconnectingAccounts (await_race d s) = reconnectingAccounts s"
  "onConnectionLostCallback (await_race d s) = onConnectionLostCallback s"
  "sockets (await_race d s) = sockets s"
  "queues (await_race d s) = queues s"
  "nextQueue (await_race d s) = nextQueue s"
  "timers (await_race d s) = (timers s)(nextTimer s \<mapsto> RecoveryTimeout)"
  "nextTimer (await_race d s) = Suc (nextTimer s)"
  "suspended (await_race d s) = (suspended s)(nextTimer s \<mapsto> d)"
  "trace (await_race d s) = trace s @ [SetTimeout (nextTimer s) 55000]"
  by (simp_all add: await_race_def Let_def)

lemma finally_block_fields [simp]:
  "connectionsByAuth (finally_block k d s) = connectionsByAuth s"
  "messageQueues (finally_block k d s) = messageQueues s"
  "reconnectGraceTimers (finally_block k d s) = reconnectGraceTimers s"
  "onConnectionLostCallback (finally_block k d s) = onConnectionLostCallback s"
  "sockets (finally_block k d s) = sockets s"
  "queues (finally_block k d s) = queues s"
  "nextQueue (finally_block k d s) = nextQueue s"
  "nextTimer (finally_block k d s) = nextTimer s"
  "suspended (finally_block k d s) = suspended s"
  "reconnectingAccounts (finally_block k d s) = (reconnectingAccounts s)(d := None)"
  "timers (finally_block k d s) = (case k of None \<Rightarrow> timers s | Some t \<Rightarrow> (timers s)(t := None))"
  "trace (finally_block k d s) =
     trace s @ (case k of None \<Rightarrow> [] | Some t \<Rightarrow> [ClearTimeout t]) @ [ClearReconnecting d]"
  by (simp_all add: finally_block_def Let_def split: option.splits)

lemma finish_grace_fields [simp]:
  "connectionsByAuth (finish_grace d s) = connectionsByAuth s"
  "messageQueues (finish_grace d s) = messageQueues s"
  "reconnectGraceTimers (finish_grace d s) = (reconnectGraceTimers s)(d := None)"
  "reconnectingAccounts (finish_grace d s) = reconnectingAccounts s"
  "onConnectionLostCallback (finish_grace d s) = onConnectionLostCallback s"
  "sockets (finish_grace d s) = sockets s"
  "queues (finish_grace d s) = queues s"
  "nextQueue (finish_grace d s) = nextQueue s"
  "timers (finish_grace d s) = timers s"
  "nextTimer (finish_grace d s) = nextTimer s"
  "suspended (finish_grace d s) = suspended s"
  "trace (finish_grace d s) = trace s @ [Emit ConnectionLost]"
  by (simp_all add: finish_grace_def)

lemma state_after_simps [simp]:
  "state_after (Inr s) = s"
  "state_after (Inl (e, s)) = perform [UnhandledRejection e] s"
  by (simp_all add: state_after_def)

lemma isAccountReconnecting_expiry_queues [simp]:
  "isAccountReconnecting d (expiry_queues g d' s) = isAccountReconnecting d s"
  by (simp add: isAccountReconnecting_def)

lemma graceTimerCallback_not_attempt:
  "\<not> attempts d s \<Longrightarrow> graceTimerCallback g call d s = finish_grace d (expiry_queues g d s)"
  by (auto simp: graceTimerCallback_def graceTimerHandler_def Let_def attempts_def)

lemma graceTimerCallback_attempt_eq:
  assumes "attempts d s"
  shows "graceTimerCallback g (ThrowsSync msg) d s =
           finish_grace d (finally_block None d
             (perform [Log (ReconnectFailed d msg)] (begin_attempt d (expiry_queues g d s))))"
    and "graceTimerCallback g ThrowsUnreadable d s =
           perform [UnhandledRejection TypeError]
             (finally_block None d (begin_attempt d (expiry_queues g d s)))"
    and "graceTimerCallback g ReturnsPromise d s = await_race d (begin_attempt d (expiry_queues g d s))"
  using assms
  by (simp_all add: graceTimerCallback_def graceTimerHandler_def Let_def attempts_def)

lemma recoverySettled_idle: "suspended s k = None \<Longrightarrow> recoverySettled out k s = s"
  by (simp add: recoverySettled_def graceTimerResume_def)

lemma recoverySettled_eq:
  assumes "suspended s k = Some d"
  shows "outcome_log d out = Some entry \<Longrightarrow>
           recoverySettled out k s =
             finish_grace d (finally_block (Some k) d
               (perform [Log entry] (s\<lparr>suspended := (suspended s)(k := None)\<rparr>)))"
    and "outcome_log d out = None \<Longrightarrow>
           recoverySettled out k s =
             perform [UnhandledRejection TypeError]
               (finally_block (Some k) d (s\<lparr>suspended := (suspended s)(k := None)\<rparr>))"
  using assms by (simp_all add: recoverySettled_def graceTimerResume_def Let_def)

lemma graceTimerCallback_queues:
  "messageQueues (graceTimerCallback g call d s) =
     (if d = currentAuthIndex g then [] else messageQueues s)"
  "queues (graceTimerCallback g call d s) =
     (if d = currentAuthIndex g then closed_all (messageQueues s) (queues s) else queues s)"
  by (cases "attempts d s"; cases call;
      simp add: graceTimerCallback_not_attempt graceTimerCallback_attempt_eq)+

lemma recoverySettled_queues [simp]:
  "messageQueues (recoverySettled out k s) = messageQueues s"
  "queues (recoverySettled out k s) = queues s"
  by (cases "suspended s k"; cases "outcome_log (the (suspended s k)) out";
      simp add: recoverySettled_idle recoverySettled_eq)+

lemma replace_existing_fields [simp]:
  "connectionsByAuth (replace_existing a w s) = connectionsByAuth s"
  "messageQueues (replace_existing a w s) = messageQueues s"
  "reconnectGraceTimers (replace_existing a w s) = reconnectGraceTimers s"
  "reconnectingAccounts (replace_existing a w s) = reconnectingAccounts s"
  "onConnectionLostCallback (replace_existing a w s) = onConnectionLostCallback s"
  "queues (replace_existing a w s) = queues s"
  "nextQueue (replace_existing a w s) = nextQueue s"
  "timers (replace_existing a w s) = timers s"
  "nextTimer (replace_existing a w s) = nextTimer s"
  "suspended (replace_existing a w s) = suspended s"
  by (simp_all add: replace_existing_def Let_def ws_close_def split: option.splits)

lemma clear_grace_on_reconnect_timers [simp]:
  "reconnectGraceTimers (clear_grace_on_reconnect g a s) = (reconnectGraceTimers s)(a := None)"
  "timers (clear_grace_on_reconnect g a s) =
     (case reconnectGraceTimers s a of None \<Rightarrow> timers s | Some t \<Rightarrow> (timers s)(t := None))"
  by (auto simp: clear_grace_on_reconnect_def Let_def split: option.splits)

lemma clear_grace_on_reconnect_queues:
  "messageQueues (clear_grace_on_reconnect g a s) =
     (if reconnectGraceTimers s a \<noteq> None \<and> a = currentAuthIndex g then [] else messageQueues s)"
  "queues (clear_grace_on_reconnect g a s) =
     (if reconnectGraceTimers s a \<noteq> None \<and> a = currentAuthIndex g
      then closed_all (messageQueues s) (queues s) else queues s)"
  by (auto simp: clear_grace_on_reconnect_def Let_def closeAll_queues_eq closed_all_def
      split: option.splits)

lemma addConnection_fields:
  assumes "0 \<le> a"
  shows "messageQueues (addConnection g w \<lparr>authIndex = JSInt a, address = addr\<rparr> s) =
           messageQueues (clear_grace_on_reconnect g a s)"
    and "queues (addConnection g w \<lparr>authIndex = JSInt a, address = addr\<rparr> s) =
           queues (clear_grace_on_reconnect g a s)"
    and "reconnectGraceTimers (addConnection g w \<lparr>authIndex = JSInt a, address = addr\<rparr> s) =
           (reconnectGraceTimers s)(a := None)"
    and "timers (addConnection g w \<lparr>authIndex = JSInt a, address = addr\<rparr> s) =
           (case reconnectGraceTimers s a of None \<Rightarrow> timers s | Some t \<Rightarrow> (timers s)(t := None))"
    and "reconnectingAccounts (addConnection g w \<lparr>authIndex = JSInt a, address = addr\<rparr> s) =
           reconnectingAccounts s"
    and "suspended (addConnection g w \<lparr>authIndex = JSInt a, address = addr\<rparr> s) = suspended s"
    and "nextTimer (addConnection g w \<lparr>authIndex = JSInt a, address = addr\<rparr> s) = nextTimer s"
    and "onConnectionLostCallback (addConnection g w \<lparr>authIndex = JSInt a, address = addr\<rparr> s) =
           onConnectionLostCallback s"
    and "connectionsByAuth (addConnection g w \<lparr>authIndex = JSInt a, address = addr\<rparr> s) =
           (connectionsByAuth s)(a \<mapsto> w)"
  using assms
  by (auto simp: addConnection_valid register_handlers_def store_connection_def Let_def
      clear_grace_on_reconnect_queues split: option.splits)

lemma lost_once_eval:
  "reconnectGraceTimers lost_once 0 = Some 0"
  "timers lost_once 0 = Some (GraceTimer 0)"
  "connectionsByAuth lost_once 0 = None"
  "messageQueues lost_once = [(''r1'', 0)]"
  "queues lost_once 0 = new_queue"
  by (simp_all add: lost_once_def run_defs)

lemma replace_existing_no_invoke:
  "\<exists>es. trace (replace_existing a w s) = trace s @ es \<and> list_all (\<lambda>e. \<not> is_invoke e) es"
  by (auto simp: replace_existing_def Let_def ws_close_def split: option.splits)

lemma clear_grace_on_reconnect_cancels:
  assumes "reconnectGraceTimers s a = Some t"
  shows "\<exists>es. trace (clear_grace_on_reconnect g a s) = trace s @ es
            \<and> ClearTimeout t \<in> set es \<and> list_all (\<lambda>e. \<not> is_invoke e) es"
  using assms
  by (auto simp: clear_grace_on_reconnect_def Let_def closeAll_trace list_all_iff)

lemma addConnection_cancels:
  assumes "0 \<le> a" "reconnectGraceTimers s a = Some t"
  shows "\<exists>es. trace (addConnection g w \<lparr>authIndex = JSInt a, address = addr\<rparr> s) = trace s @ es
            \<and> ClearTimeout t \<in> set es \<and> list_all (\<lambda>e. \<not> is_invoke e) es"
proof -
  let ?r = "replace_existing a w s"
  obtain es1 where 1: "trace ?r = trace s @ es1" "list_all (\<lambda>e. \<not> is_invoke e) es1"
    using replace_existing_no_invoke by blast
  have "reconnectGraceTimers ?r a = Some t" using assms(2) by simp
  then obtain es2 where 2: "trace (clear_grace_on_reconnect g a ?r) = trace ?r @ es2"
    "ClearTimeout t \<in> set es2" "list_all (\<lambda>e. \<not> is_invoke e) es2"
    using clear_grace_on_reconnect_cancels by blast
  let ?es = "es1 @ es2 @ [StoreConnection a w, Log (ClientConnected addr a),
           WsOn w OnMessage, WsOn w OnClose, WsOn w OnError, Emit (ConnectionAdded w)]"
  have "trace (addConnection g w \<lparr>authIndex = JSInt a, address = addr\<rparr> s) = trace s @ ?es"
    using assms(1) by (simp add: addConnection_valid register_handlers_def store_connection_def Let_def 1 2)
  moreover have "ClearTimeout t \<in> set ?es" using 2(2) by simp
  moreover have "list_all (\<lambda>e. \<not> is_invoke e) ?es" using 1(2) 2(3) by simp
  ultimately show ?thesis by blast
qed

lemma recovery_inv_cong:
  "suspended s' = suspended s \<Longrightarrow> reconnectingAccounts s' = reconnectingAccounts s \<Longrightarrow>
     recovery_inv s \<Longrightarrow> recovery_inv s'"
  by (simp add: recovery_inv_def)

lemma addConnection_recovery [simp]:
  "suspended (addConnection g w ci s) = suspended s"
  "reconnectingAccounts (addConnection g w ci s) = reconnectingAccounts s"
  by (auto simp: addConnection_def ws_close_def register_handlers_def store_connection_def Let_def
      split: js_value.splits)

lemma clear_grace_timer_recovery [simp]:
  "suspended (clear_grace_timer a s) = suspended s"
  "reconnectingAccounts (clear_grace_timer a s) = reconnectingAccounts s"
  by (simp_all add: clear_grace_timer_def split: option.splits)

lemma removeConnection_recovery [simp]:
  "suspended (removeConnection bm w s) = suspended s"
  "reconnectingAccounts (removeConnection bm w s) = reconnectingAccounts s"
  by (simp_all add: removeConnection_def start_grace_timer_def Let_def split: option.splits)

lemma emit_close_recovery [simp]:
  "suspended (emit_close bm w ls s) = suspended s"
  "reconnectingAccounts (emit_close bm w ls s) = reconnectingAccounts s"
  by (induction ls arbitrary: s) simp_all

lemma handleIncomingMessage_recovery:
  "handleIncomingMessage P d s = Inr s' \<Longrightarrow>
     suspended s' = suspended s \<and> reconnectingAccounts s' = reconnectingAccounts s"
  by (auto simp: handleIncomingMessage_def handleIncomingMessage_try_def routeMessage_def
      queue_enqueue_def split: sum.splits prod.splits option.splits if_splits)

lemma emit_message_recovery:
  "emit_message P d ls s = Inr s' \<Longrightarrow>
     suspended s' = suspended s \<and> reconnectingAccounts s' = reconnectingAccounts s"
proof (induction ls arbitrary: s)
  case Nil
  then show ?case by simp
next
  case (Cons l ls)
  show ?case
  proof (cases "l = OnMessage")
    case True
    obtain r where r: "handleIncomingMessage P d s = Inr r"
      using handleIncomingMessage_total by blast
    with Cons.prems True have "emit_message P d ls r = Inr s'" by simp
    then show ?thesis using Cons.IH handleIncomingMessage_recovery [OF r] by simp
  next
    case False
    then show ?thesis using Cons by simp
  qed
qed

lemma closeConnectionByAuth_recovery [simp]:
  "suspended (closeConnectionByAuth a s) = suspended s"
  "reconnectingAccounts (closeConnectionByAuth a s) = reconnectingAccounts s"
  by (simp_all add: closeConnectionByAuth_def Let_def ws_close_def split: option.splits)

lemma queue_ops_recovery [simp]:
  "suspended (createMessageQueue r s) = suspended s"
  "reconnectingAccounts (createMessageQueue r s) = reconnectingAccounts s"
  "suspended (removeMessageQueue r s) = suspended s"
  "reconnectingAccounts (removeMessageQueue r s) = reconnectingAccounts s"
  by (simp_all add: createMessageQueue_def removeMessageQueue_def split: option.splits)

lemma getConnectionByAuth_recovery [simp]:
  "suspended (snd (getConnectionByAuth a s)) = suspended s"
  "reconnectingAccounts (snd (getConnectionByAuth a s)) = reconnectingAccounts s"
  by (simp_all add: getConnectionByAuth_def split: option.splits)

lemma graceTimerCallback_inv:
  assumes "recovery_inv s"
  shows "recovery_inv (graceTimerCallback g call d s)"
proof (cases "attempts d s")
  case False
  then show ?thesis
    using assms by (simp add: graceTimerCallback_not_attempt recovery_inv_def)
next
  case True
  then have flag: "reconnectingAccounts s d \<noteq> Some True"
    by (auto simp: attempts_def isAccountReconnecting_def split: option.splits)
  then have none: "\<And>k. suspended s k \<noteq> Some d"
    using assms by (auto simp: recovery_inv_def)
  show ?thesis
    using assms none True
    by (cases call) (auto simp: graceTimerCallback_attempt_eq recovery_inv_def)
qed

lemma recoverySettled_inv:
  assumes "recovery_inv s"
  shows "recovery_inv (recoverySettled out k s)"
proof (cases "suspended s k")
  case None
  then show ?thesis using assms by (simp add: recoverySettled_idle)
next
  case (Some d)
  then have "suspended (recoverySettled out k s) = (suspended s)(k := None)"
    "reconnectingAccounts (recoverySettled out k s) = (reconnectingAccounts s)(d := None)"
    by (cases "outcome_log d out"; simp add: recoverySettled_eq)+
  then show ?thesis
    using assms Some by (auto simp: recovery_inv_def)
qed

lemma recovery_inv_timers [simp]: "recovery_inv (s\<lparr>timers := x\<rparr>) = recovery_inv s"
  by (simp add: recovery_inv_def)

lemma fireTimer_inv: "recovery_inv s \<Longrightarrow> recovery_inv (fireTimer g call t s)"
  by (simp add: fireTimer_def graceTimerCallback_inv recoverySettled_inv
      split: option.splits timer_task.splits)

lemma step_inv: "recovery_inv s \<Longrightarrow> recovery_inv (step P e s)"
proof (cases e)
  case (SocketMessage w d)
  assume i: "recovery_inv s"
  show ?thesis
  proof (cases "socket_message P w d s")
    case (Inl a)
    then show ?thesis using i SocketMessage by simp
  next
    case (Inr r)
    then show ?thesis
      using i SocketMessage emit_message_recovery [of P d "listeners (sockets s w)" s r]
      by (auto simp: socket_message_def intro: recovery_inv_cong)
  qed
qed (auto simp: socket_close_def fireTimer_inv recoverySettled_inv intro: recovery_inv_cong)

lemma run_snoc: "run P (es @ [e]) s = step P e (run P es s)"
  by (simp add: run_def)

lemma run_inv: "recovery_inv s \<Longrightarrow> recovery_inv (run P es s)"
  by (induction es rule: rev_induct) (simp_all add: run_snoc step_inv, simp add: run_def)

lemma new_registry_inv: "recovery_inv (new_registry cb)"
  by (simp add: recovery_inv_def new_registry_def)

lemma graceTimerCallback_trace:
  "trace (graceTimerCallback g call d s) =
     trace s @ expiry_prefix g d s
       @ (if attempts d s then
            [SetReconnecting d, Log (AttemptingReconnect d), InvokeCallback d]
              @ attempt_tail call d (nextTimer s)
          else [Emit ConnectionLost])"
  by (cases "attempts d s"; cases call;
      simp add: graceTimerCallback_not_attempt graceTimerCallback_attempt_eq attempt_tail_def)

lemma expiry_prefix_no_invoke: "list_all (\<lambda>e. \<not> is_invoke e) (expiry_prefix g d s)"
  by (simp add: expiry_prefix_def close_effects_def list_all_iff image_iff)

lemma graceTimerCallback_attempt:
  assumes "attempts d s"
  shows "call = ReturnsPromise \<longrightarrow>
           reconnectingAccounts (graceTimerCallback g call d s) d = Some True
           \<and> suspended (graceTimerCallback g call d s) (nextTimer s) = Some d
           \<and> timers (graceTimerCallback g call d s) (nextTimer s) = Some RecoveryTimeout"
    and "call \<noteq> ReturnsPromise \<longrightarrow>
           reconnectingAccounts (graceTimerCallback g call d s) d = None
           \<and> suspended (graceTimerCallback g call d s) = suspended s"
  using assms
  by (cases call; simp add: graceTimerCallback_attempt_eq)+

lemma recoverySettled_clears:
  assumes "suspended r k = Some d"
  shows "reconnectingAccounts (recoverySettled out k r) d = None"
    and "suspended (recoverySettled out k r) k = None"
    and "onConnectionLostCallback (recoverySettled out k r) = onConnectionLostCallback r"
    and "trace (recoverySettled out k r) = trace r @ settle_effects out d k"
    and "timers (recoverySettled out k r) = (timers r)(k := None)"
    and "reconnectGraceTimers (recoverySettled out k r) =
           (if outcome_log d out = None then reconnectGraceTimers r
            else (reconnectGraceTimers r)(d := None))"
  using assms
  by (cases "outcome_log d out"; simp add: recoverySettled_eq settle_effects_def)+

lemma attempts_timers [simp]: "attempts d (s\<lparr>timers := x\<rparr>) = attempts d s"
  by (simp add: attempts_def isAccountReconnecting_def)

lemma expiry_prefix_timers [simp]: "expiry_prefix g d (s\<lparr>timers := x\<rparr>) = expiry_prefix g d s"
  by (simp add: expiry_prefix_def close_effects_def)

lemma lost_once_run:
  "lost_once =
     run example_parse
       [CreateMessageQueue ''r1'',
        AddConnection (Some 0) 1 \<lparr>authIndex = JSInt 0, address = ''x''\<rparr>,
        SocketCloses None 1]
       (new_registry True)"
  by (simp add: lost_once_def run_def)

lemma second_loss_run:
  "second_loss =
     run example_parse
       [CreateMessageQueue ''r1'',
        AddConnection (Some 0) 1 \<lparr>authIndex = JSInt 0, address = ''x''\<rparr>,
        SocketCloses None 1,
        TimerFires (Some 0) ReturnsPromise 0,
        AddConnection (Some 0) 2 \<lparr>authIndex = JSInt 0, address = ''y''\<rparr>,
        SocketCloses None 2]
       (new_registry True)"
  by (simp add: second_loss_def lost_once_run run_def)

lemma lost_once_more:
  "onConnectionLostCallback lost_once"
  "reconnectingAccounts lost_once 0 = None"
  "nextTimer lost_once = 1"
  by (simp_all add: lost_once_def run_defs)

lemma second_loss_eval:
  "timers second_loss 2 = Some (GraceTimer 0)"
  "timers second_loss 1 = Some RecoveryTimeout"
  "suspended second_loss 1 = Some 0"
  "reconnectingAccounts second_loss 0 = Some True"
  "reconnectGraceTimers second_loss 0 = Some 2"
  "connectionsByAuth second_loss 0 = None"
  "onConnectionLostCallback second_loss"
  by (simp_all add: second_loss_def run_def lost_once_def run_defs)

lemma tec_cong:
  "reconnectGraceTimers s' = reconnectGraceTimers s \<Longrightarrow> connectionsByAuth s' = connectionsByAuth s \<Longrightarrow>
     timer_excludes_connection s \<Longrightarrow> timer_excludes_connection s'"
  by (simp add: timer_excludes_connection_def)

lemma tec_drop_entry:
  "reconnectGraceTimers s' = (reconnectGraceTimers s)(d := None) \<Longrightarrow>
   connectionsByAuth s' = connectionsByAuth s \<Longrightarrow>
     timer_excludes_connection s \<Longrightarrow> timer_excludes_connection s'"
  by (simp add: timer_excludes_connection_def)

lemma addConnection_tec:
  "timer_excludes_connection s \<Longrightarrow> timer_excludes_connection (addConnection g w ci s)"
proof (cases "invalid_authIndex (authIndex ci)")
  case True
  assume "timer_excludes_connection s"
  then show ?thesis using True
    by (simp add: addConnection_def ws_close_def timer_excludes_connection_def)
next
  case False
  assume i: "timer_excludes_connection s"
  from False obtain a where a: "authIndex ci = JSInt a" "0 \<le> a"
    by (cases "authIndex ci") (auto simp: invalid_authIndex_def)
  then have ci: "ci = \<lparr>authIndex = JSInt a, address = address ci\<rparr>" by simp
  show ?thesis
    using i addConnection_fields(3,9) [OF a(2), of g w "address ci" s]
    by (subst ci) (simp add: timer_excludes_connection_def)
qed

lemma removeConnection_tec:
  "timer_excludes_connection s \<Longrightarrow> timer_excludes_connection (removeConnection bm w s)"
  by (auto simp: removeConnection_def start_grace_timer_def clear_grace_timer_def Let_def
      timer_excludes_connection_def split: option.splits)

lemma emit_close_tec:
  "timer_excludes_connection s \<Longrightarrow> timer_excludes_connection (emit_close bm w ls s)"
  by (induction ls arbitrary: s) (simp_all add: removeConnection_tec)

lemma handleIncomingMessage_maps:
  "handleIncomingMessage P d s = Inr s' \<Longrightarrow>
     reconnectGraceTimers s' = reconnectGraceTimers s \<and> connectionsByAuth s' = connectionsByAuth s"
  by (auto simp: handleIncomingMessage_def handleIncomingMessage_try_def routeMessage_def
      queue_enqueue_def split: sum.splits prod.splits option.splits if_splits)

lemma emit_message_maps:
  "emit_message P d ls s = Inr s' \<Longrightarrow>
     reconnectGraceTimers s' = reconnectGraceTimers s \<and> connectionsByAuth s' = connectionsByAuth s"
proof (induction ls arbitrary: s)
  case Nil
  then show ?case by simp
next
  case (Cons l ls)
  show ?case
  proof (cases "l = OnMessage")
    case True
    obtain r where r: "handleIncomingMessage P d s = Inr r"
      using handleIncomingMessage_total by blast
    with Cons.prems True have "emit_message P d ls r = Inr s'" by simp
    then show ?thesis using Cons.IH handleIncomingMessage_maps [OF r] by simp
  next
    case False
    then show ?thesis using Cons by simp
  qed
qed

lemma closeConnectionByAuth_tec:
  "timer_excludes_connection s \<Longrightarrow> timer_excludes_connection (closeConnectionByAuth a s)"
  by (auto simp: closeConnectionByAuth_def clear_grace_timer_def ws_close_def Let_def
      timer_excludes_connection_def split: option.splits)

lemma graceTimerCallback_maps:
  "connectionsByAuth (graceTimerCallback g call d s) = connectionsByAuth s"
  "reconnectGraceTimers (graceTimerCallback g call d s) = reconnectGraceTimers s
   \<or> reconnectGraceTimers (graceTimerCallback g call d s) = (reconnectGraceTimers s)(d := None)"
  by (cases "attempts d s"; cases call;
      simp add: graceTimerCallback_not_attempt graceTimerCallback_attempt_eq)+

lemma recoverySettled_maps:
  "connectionsByAuth (recoverySettled out k s) = connectionsByAuth s"
  "reconnectGraceTimers (recoverySettled out k s) = reconnectGraceTimers s
   \<or> (\<exists>d. reconnectGraceTimers (recoverySettled out k s) = (reconnectGraceTimers s)(d := None))"
proof -
  show "connectionsByAuth (recoverySettled out k s) = connectionsByAuth s"
    by (cases "suspended s k"; cases "outcome_log (the (suspended s k)) out";
        simp add: recoverySettled_idle recoverySettled_eq)
  show "reconnectGraceTimers (recoverySettled out k s) = reconnectGraceTimers s
   \<or> (\<exists>d. reconnectGraceTimers (recoverySettled out k s) = (reconnectGraceTimers s)(d := None))"
  proof (cases "suspended s k")
    case None
    then show ?thesis by (simp add: recoverySettled_idle)
  next
    case (Some d)
    then show ?thesis
      using recoverySettled_clears(6) [OF Some, of out] by (cases "outcome_log d out") auto
  qed
qed

lemma tec_timers [simp]: "timer_excludes_connection (s\<lparr>timers := x\<rparr>) = timer_excludes_connection s"
  by (simp add: timer_excludes_connection_def)

lemma graceTimerCallback_tec:
  "timer_excludes_connection s \<Longrightarrow> timer_excludes_connection (graceTimerCallback g call d s)"
  using graceTimerCallback_maps [of g call d s] tec_cong tec_drop_entry by metis

lemma recoverySettled_tec:
  "timer_excludes_connection s \<Longrightarrow> timer_excludes_connection (recoverySettled out k s)"
  using recoverySettled_maps [of out k s] tec_cong tec_drop_entry by metis

lemma fireTimer_tec:
  "timer_excludes_connection s \<Longrightarrow> timer_excludes_connection (fireTimer g call t s)"
  by (simp add: fireTimer_def graceTimerCallback_tec recoverySettled_tec
      split: option.splits timer_task.splits)

lemma queue_ops_tec:
  "timer_excludes_connection s \<Longrightarrow> timer_excludes_connection (createMessageQueue r s)"
  "timer_excludes_connection s \<Longrightarrow> timer_excludes_connection (removeMessageQueue r s)"
  "timer_excludes_connection s \<Longrightarrow> timer_excludes_connection (closeAllMessageQueues s)"
  "timer_excludes_connection s \<Longrightarrow> timer_excludes_connection (snd (getConnectionByAuth a s))"
  by (auto simp: createMessageQueue_def removeMessageQueue_def getConnectionByAuth_def
      timer_excludes_connection_def split: option.splits)

lemma step_tec: "timer_excludes_connection s \<Longrightarrow> timer_excludes_connection (step P e s)"
proof (cases e)
  case (SocketMessage w d)
  assume i: "timer_excludes_connection s"
  show ?thesis
  proof (cases "socket_message P w d s")
    case (Inl a)
    then show ?thesis using i SocketMessage by simp
  next
    case (Inr r)
    then show ?thesis
      using i SocketMessage emit_message_maps [of P d "listeners (sockets s w)" s r]
      by (auto simp: socket_message_def intro: tec_cong)
  qed
qed (simp_all add: socket_close_def addConnection_tec emit_close_tec closeConnectionByAuth_tec
      fireTimer_tec recoverySettled_tec queue_ops_tec)

lemma timer_entry_only_without_connection:
  "reconnectGraceTimers (run P es (new_registry cb)) X \<noteq> None \<Longrightarrow>
     connectionsByAuth (run P es (new_registry cb)) X = None"
proof -
  have "timer_excludes_connection (run P es (new_registry cb))"
  proof (induction es rule: rev_induct)
    case Nil
    show ?case by (simp add: run_def timer_excludes_connection_def new_registry_def)
  next
    case (snoc e es)
    then show ?case by (simp add: run_snoc step_tec)
  qed
  then show "reconnectGraceTimers (run P es (new_registry cb)) X \<noteq> None \<Longrightarrow>
     connectionsByAuth (run P es (new_registry cb)) X = None"
    by (simp add: timer_excludes_connection_def)
qed

section \<open>One connection per tenant\<close>

text \<open>
  C1. After any sequence of addConnection calls for the same valid tenant id (the calls
  \<open>pre\<close> followed by a last one), the lookup returns the handle of the last call. If a
  different handle was registered when that call was made, it has no listeners afterwards,
  and the trace of the call shows removeAllListeners and
  close(1000, "Replaced by new connection") on it before the store of the new handle into
  the connection map.
\<close>

theorem addConnection_one_per_tenant:
  assumes "0 \<le> a"
  shows "fst (getConnectionByAuth a (addConnections a (pre @ [(g, w, addr)]) s)) = Some w
       \<and> (connectionsByAuth (addConnections a pre s) a = Some w0 \<and> w0 \<noteq> w \<longrightarrow>
              listeners (sockets (addConnections a (pre @ [(g, w, addr)]) s) w0) = []
              \<and> (\<exists>mid rest. trace (addConnections a (pre @ [(g, w, addr)]) s) =
                    trace (addConnections a pre s)
                    @ [Log (DuplicateConnection a), WsRemoveAllListeners w0,
                       WsClose w0 (Some (1000, ''Replaced by new connection''))]
                    @ mid @ [StoreConnection a w] @ rest))"
proof (intro conjI impI)
  show "fst (getConnectionByAuth a (addConnections a (pre @ [(g, w, addr)]) s)) = Some w"
    using assms addConnections_last [of a "pre @ [(g, w, addr)]" s]
    by (simp add: getConnectionByAuth_def)
next
  assume h: "connectionsByAuth (addConnections a pre s) a = Some w0 \<and> w0 \<noteq> w"
  then show "listeners (sockets (addConnections a (pre @ [(g, w, addr)]) s) w0) = []"
    using assms addConnection_replaces(1) by (simp add: addConnections_snoc)
  from h show "\<exists>mid rest. trace (addConnections a (pre @ [(g, w, addr)]) s) =
                    trace (addConnections a pre s)
                    @ [Log (DuplicateConnection a), WsRemoveAllListeners w0,
                       WsClose w0 (Some (1000, ''Replaced by new connection''))]
                    @ mid @ [StoreConnection a w] @ rest"
    using assms addConnection_replaces(2) by (simp add: addConnections_snoc)
qed

theorem addConnection_one_per_tenant_witness:
  "(0::int) \<le> 0
   \<and> connectionsByAuth (addConnections 0 [(Some 0, 1, ''x'')] (new_registry False)) 0 = Some 1
   \<and> (1::nat) \<noteq> 2
   \<and> fst (getConnectionByAuth 0
        (addConnections 0 ([(Some 0, 1, ''x'')] @ [(Some 0, 2, ''y'')]) (new_registry False))) = Some 2
   \<and> listeners (sockets
        (addConnections 0 ([(Some 0, 1, ''x'')] @ [(Some 0, 2, ''y'')]) (new_registry False)) 1) = []
   \<and> (\<exists>mid rest.
        trace (addConnections 0 ([(Some 0, 1, ''x'')] @ [(Some 0, 2, ''y'')]) (new_registry False)) =
          trace (addConnections 0 [(Some 0, 1, ''x'')] (new_registry False))
          @ [Log (DuplicateConnection 0), WsRemoveAllListeners 1,
             WsClose 1 (Some (1000, ''Replaced by new connection''))]
          @ mid @ [StoreConnection 0 2] @ rest)"
proof -
  have a: "(0::int) \<le> 0" by simp
  have c: "connectionsByAuth (addConnections 0 [(Some 0, 1, ''x'')] (new_registry False)) 0 = Some 1"
    by (simp add: addConnections_def run_defs)
  have d: "(1::nat) \<noteq> 2" by simp
  from addConnection_one_per_tenant
         [OF a, of "[(Some 0, 1, ''x'')]" "Some 0" 2 "''y''" "new_registry False" 1] a c d
  show ?thesis by blast
qed

section \<open>Routing into the queue of a request\<close>

text \<open>
  C2 as stated fails for the empty request id: a queue is registered under the empty string
  and a chunk frame with that request_id arrives. Line 207 takes the empty string for a
  missing request_id, so the frame is logged as such and dropped, and the queue stays empty.
\<close>

theorem empty_request_id_is_dropped:
  "map_of (messageQueues (createMessageQueue '''' (new_registry False))) '''' = Some 0
   \<and> odd_parse ''emptyid'' = Some (JObj [(''request_id'', JStr ''''), (''event_type'', JStr ''chunk'')])
   \<and> bears '''' (JObj [(''request_id'', JStr ''''), (''event_type'', JStr ''chunk'')])
   \<and> handle_frames odd_parse [''emptyid''] (createMessageQueue '''' (new_registry False)) =
       Inr (perform [Log MissingRequestId] (createMessageQueue '''' (new_registry False)))
   \<and> items (queues (perform [Log MissingRequestId] (createMessageQueue '''' (new_registry False))) 0) = []"
  by (simp add: odd_parse_def createMessageQueue_def new_registry_def new_queue_def
      handleIncomingMessage_def handleIncomingMessage_try_def perform_def)

text \<open>
  C2, amended. Let the raw frames \<open>ds\<close> parse to \<open>frames\<close>, all with the same non-empty
  string as request_id, and let a queue \<open>q\<close> be registered under it. Handling the frames one
  after the other never raises and calls enqueue on \<open>q\<close> in arrival order: with the frame
  itself for the kinds response_headers, chunk and error, with the STREAM_END sentinel (once)
  for stream_close, and not at all for any other kind, which is logged instead (as an
  unknown kind, or as a frame that failed to parse when the kind has no string conversion).
  While the queue is open these are exactly the entries appended to it. No frame being the
  sentinel, a stream_close frame is never passed through. The other queues and the queue
  map are untouched.
\<close>

theorem routing_in_arrival_order:
  assumes "map JSON_parse ds = map Some frames"
    and "\<forall>m \<in> set frames. bears rid m"
    and "rid \<noteq> []"
    and "map_of (messageQueues s) rid = Some q"
  shows "\<exists>s'. handle_frames JSON_parse ds s = Inr s'
          \<and> queues s' q = foldl (\<lambda>qu m. enqueue m qu) (queues s q) (concat (map spec_delivery frames))
          \<and> items (queues s' q) =
              items (queues s q) @ (if closed (queues s q) then [] else concat (map spec_delivery frames))
          \<and> queues s' = (queues s)(q := queues s' q)
          \<and> messageQueues s' = messageQueues s
          \<and> trace s' = trace s @ concat (map (spec_effects q) frames)
          \<and> STREAM_END \<notin> set frames"
proof -
  let ?s' = "foldl (\<lambda>r m. deliver q m r) s frames"
  have 1: "handle_frames JSON_parse ds s = Inr ?s'"
    using assms by (rule handle_frames_registered)
  have 2: "queues ?s' q = foldl (\<lambda>qu m. enqueue m qu) (queues s q) (concat (map spec_delivery frames))"
    by (rule foldl_deliver_queue)
  have 3: "items (queues ?s' q) =
              items (queues s q) @ (if closed (queues s q) then [] else concat (map spec_delivery frames))"
    by (simp add: 2 foldl_enqueue_open foldl_enqueue_closed)
  have 4: "queues ?s' = (queues s)(q := queues ?s' q)"
    by (rule ext) (simp add: foldl_deliver_other)
  have 5: "STREAM_END \<notin> set frames"
    using assms(2) bears_not_sentinel by blast
  show ?thesis
    using 1 2 3 4 5 foldl_deliver_fields(1) foldl_deliver_trace by blast
qed

theorem routing_in_arrival_order_witness:
  "(\<exists>s'. handle_frames example_parse [''c1'', ''ping'', ''c1'', ''close'']
           (createMessageQueue ''r1'' (new_registry False)) = Inr s'
      \<and> items (queues s' 0) =
          [JObj [(''request_id'', JStr ''r1''), (''event_type'', JStr ''chunk''), (''data'', JStr ''a'')],
           JObj [(''request_id'', JStr ''r1''), (''event_type'', JStr ''chunk''), (''data'', JStr ''a'')],
           JObj [(''type'', JStr ''STREAM_END'')]]
      \<and> trace s' =
          [QueueEnqueue 0 (JObj [(''request_id'', JStr ''r1''), (''event_type'', JStr ''chunk''), (''data'', JStr ''a'')]),
           Log (UnknownEventType (Some (JStr ''ping''))),
           QueueEnqueue 0 (JObj [(''request_id'', JStr ''r1''), (''event_type'', JStr ''chunk''), (''data'', JStr ''a'')]),
           QueueEnqueue 0 (JObj [(''type'', JStr ''STREAM_END'')])])
   \<and> (\<exists>s'. handle_frames odd_parse [''oddkind'']
           (createMessageQueue ''r1'' (new_registry False)) = Inr s'
      \<and> items (queues s' 0) = []
      \<and> trace s' = [Log ParseFailed])"
proof -
  let ?fs = "[JObj [(''request_id'', JStr ''r1''), (''event_type'', JStr ''chunk''), (''data'', JStr ''a'')],
               JObj [(''request_id'', JStr ''r1''), (''event_type'', JStr ''ping'')],
               JObj [(''request_id'', JStr ''r1''), (''event_type'', JStr ''chunk''), (''data'', JStr ''a'')],
               JObj [(''request_id'', JStr ''r1''), (''event_type'', JStr ''stream_close'')]]"
  let ?odd = "[JObj [(''request_id'', JStr ''r1''), (''event_type'', JObj [(''toString'', JNull)])]]"
  let ?s = "createMessageQueue ''r1'' (new_registry False)"
  have b: "\<forall>m \<in> set ?fs. bears ''r1'' m" by simp
  have bo: "\<forall>m \<in> set ?odd. bears ''r1'' m" by simp
  have po: "map odd_parse [''oddkind''] = map Some ?odd" by (simp add: odd_parse_def)
  have n: "''r1'' \<noteq> []" by simp
  have q: "map_of (messageQueues ?s) ''r1'' = Some 0"
    by (simp add: createMessageQueue_def new_registry_def)
  have i: "items (queues ?s 0) = []" "\<not> closed (queues ?s 0)" "trace ?s = []"
    by (simp_all add: createMessageQueue_def new_registry_def new_queue_def)
  have d: "concat (map spec_delivery ?fs) =
      [JObj [(''request_id'', JStr ''r1''), (''event_type'', JStr ''chunk''), (''data'', JStr ''a'')],
       JObj [(''request_id'', JStr ''r1''), (''event_type'', JStr ''chunk''), (''data'', JStr ''a'')],
       JObj [(''type'', JStr ''STREAM_END'')]]"
    by (simp add: spec_delivery_def STREAM_END_def)
  have e: "concat (map (spec_effects 0) ?fs) =
      [QueueEnqueue 0 (JObj [(''request_id'', JStr ''r1''), (''event_type'', JStr ''chunk''), (''data'', JStr ''a'')]),
           Log (UnknownEventType (Some (JStr ''ping''))),
           QueueEnqueue 0 (JObj [(''request_id'', JStr ''r1''), (''event_type'', JStr ''chunk''), (''data'', JStr ''a'')]),
           QueueEnqueue 0 (JObj [(''type'', JStr ''STREAM_END'')])]"
    by (simp add: spec_effects_def spec_delivery_def STREAM_END_def)
  have do: "concat (map spec_delivery ?odd) = []"
    by (simp add: spec_delivery_def)
  have eo: "concat (map (spec_effects 0) ?odd) = [Log ParseFailed]"
    by (simp add: spec_effects_def spec_delivery_def)
  from routing_in_arrival_order [OF example_frames b n q]
  have 1: "\<exists>s'. handle_frames example_parse [''c1'', ''ping'', ''c1'', ''close''] ?s = Inr s'
      \<and> items (queues s' 0) =
          [JObj [(''request_id'', JStr ''r1''), (''event_type'', JStr ''chunk''), (''data'', JStr ''a'')],
           JObj [(''request_id'', JStr ''r1''), (''event_type'', JStr ''chunk''), (''data'', JStr ''a'')],
           JObj [(''type'', JStr ''STREAM_END'')]]
      \<and> trace s' =
          [QueueEnqueue 0 (JObj [(''request_id'', JStr ''r1''), (''event_type'', JStr ''chunk''), (''data'', JStr ''a'')]),
           Log (UnknownEventType (Some (JStr ''ping''))),
           QueueEnqueue 0 (JObj [(''request_id'', JStr ''r1''), (''event_type'', JStr ''chunk''), (''data'', JStr ''a'')]),
           QueueEnqueue 0 (JObj [(''type'', JStr ''STREAM_END'')])]"
    using i d e by auto
  from routing_in_arrival_order [OF po bo n q]
  have 2: "\<exists>s'. handle_frames odd_parse [''oddkind''] ?s = Inr s'
      \<and> items (queues s' 0) = [] \<and> trace s' = [Log ParseFailed]"
    using i do eo by auto
  from 1 2 show ?thesis by blast
qed

section \<open>Dropped frames\<close>

text \<open>
  C3. \<open>_handleIncomingMessage\<close> returns normally on every input. A frame that does not
  parse (or parses to null, where reading request_id throws inside the try block), a frame
  whose request_id is missing or falsy, and a frame whose request_id has no registered queue
  each leave the registry as it was, apart from one log line: no queue is created, no map
  is changed. The log line of the last case is the warning about the unknown request id, or
  "Failed to parse" when the request id has no string conversion and the template literal
  of the warning throws inside the try block.
\<close>

theorem handleIncomingMessage_never_raises:
  "(\<exists>s'. handleIncomingMessage JSON_parse messageData s = Inr s')
   \<and> (JSON_parse messageData = None \<or> JSON_parse messageData = Some JNull \<longrightarrow>
        handleIncomingMessage JSON_parse messageData s = Inr (perform [Log ParseFailed] s))
   \<and> (JSON_parse messageData = Some m \<and> property m ''request_id'' = Inr requestId
        \<and> \<not> truthy requestId \<longrightarrow>
        handleIncomingMessage JSON_parse messageData s = Inr (perform [Log MissingRequestId] s))
   \<and> (JSON_parse messageData = Some m \<and> property m ''request_id'' = Inr requestId
        \<and> truthy requestId \<and> messageQueues_get requestId s = None \<longrightarrow>
        handleIncomingMessage JSON_parse messageData s =
          Inr (perform [Log (if template_throws requestId then ParseFailed
                             else UnknownRequestId requestId)] s))"
  by (auto simp: handleIncomingMessage_def handleIncomingMessage_try_def
      split: sum.splits prod.splits option.splits)

theorem handleIncomingMessage_never_raises_witness:
  "handleIncomingMessage example_parse ''junk'' (createMessageQueue ''r1'' (new_registry False)) =
     Inr (perform [Log ParseFailed] (createMessageQueue ''r1'' (new_registry False)))
   \<and> handleIncomingMessage example_parse ''{}'' (createMessageQueue ''r1'' (new_registry False)) =
     Inr (perform [Log MissingRequestId] (createMessageQueue ''r1'' (new_registry False)))
   \<and> handleIncomingMessage example_parse ''r2'' (createMessageQueue ''r1'' (new_registry False)) =
     Inr (perform [Log (UnknownRequestId (Some (JStr ''r2'')))]
            (createMessageQueue ''r1'' (new_registry False)))
   \<and> handleIncomingMessage odd_parse ''nostring'' (createMessageQueue ''r1'' (new_registry False)) =
     Inr (perform [Log ParseFailed] (createMessageQueue ''r1'' (new_registry False)))"
proof -
  let ?s = "createMessageQueue ''r1'' (new_registry False)"
  have 1: "example_parse ''junk'' = None \<or> example_parse ''junk'' = Some JNull"
    by (simp add: example_parse_def)
  have 2: "example_parse ''{}'' = Some (JObj []) \<and> property (JObj []) ''request_id'' = Inr None
           \<and> \<not> truthy None"
    by (simp add: example_parse_def)
  have 3: "example_parse ''r2'' = Some (JObj [(''request_id'', JStr ''r2''), (''event_type'', JStr ''chunk'')])
           \<and> property (JObj [(''request_id'', JStr ''r2''), (''event_type'', JStr ''chunk'')]) ''request_id''
               = Inr (Some (JStr ''r2''))
           \<and> truthy (Some (JStr ''r2'')) \<and> messageQueues_get (Some (JStr ''r2'')) ?s = None"
    by (simp add: example_parse_def createMessageQueue_def new_registry_def)
  have 4: "odd_parse ''nostring'' = Some (JObj [(''request_id'', JObj [(''toString'', JNull)])])
           \<and> property (JObj [(''request_id'', JObj [(''toString'', JNull)])]) ''request_id''
               = Inr (Some (JObj [(''toString'', JNull)]))
           \<and> truthy (Some (JObj [(''toString'', JNull)]))
           \<and> messageQueues_get (Some (JObj [(''toString'', JNull)])) ?s = None"
    by (simp add: odd_parse_def)
  have t3: "\<not> template_throws (Some (JStr ''r2''))" by simp
  have t4: "template_throws (Some (JObj [(''toString'', JNull)]))" by simp
  from handleIncomingMessage_never_raises [of example_parse "''junk''" ?s] 1
  have a: "handleIncomingMessage example_parse ''junk'' ?s = Inr (perform [Log ParseFailed] ?s)"
    by blast
  from handleIncomingMessage_never_raises [of example_parse "''{}''" ?s "JObj []" None] 2
  have b: "handleIncomingMessage example_parse ''{}'' ?s = Inr (perform [Log MissingRequestId] ?s)"
    by blast
  from handleIncomingMessage_never_raises [of example_parse "''r2''" ?s
      "JObj [(''request_id'', JStr ''r2''), (''event_type'', JStr ''chunk'')]" "Some (JStr ''r2'')"] 3
  have "handleIncomingMessage example_parse ''r2'' ?s =
          Inr (perform [Log (if template_throws (Some (JStr ''r2'')) then ParseFailed
                             else UnknownRequestId (Some (JStr ''r2'')))] ?s)"
    by blast
  then have c: "handleIncomingMessage example_parse ''r2'' ?s =
             Inr (perform [Log (UnknownRequestId (Some (JStr ''r2'')))] ?s)"
    by (simp only: t3 if_False)
  from handleIncomingMessage_never_raises [of odd_parse "''nostring''" ?s
      "JObj [(''request_id'', JObj [(''toString'', JNull)])]" "Some (JObj [(''toString'', JNull)])"] 4
  have "handleIncomingMessage odd_parse ''nostring'' ?s =
          Inr (perform [Log (if template_throws (Some (JObj [(''toString'', JNull)])) then ParseFailed
                             else UnknownRequestId (Some (JObj [(''toString'', JNull)])))] ?s)"
    by blast
  then have d: "handleIncomingMessage odd_parse ''nostring'' ?s = Inr (perform [Log ParseFailed] ?s)"
    by (simp only: t4 if_True)
  from a b c d show ?thesis by blast
qed

section \<open>Expiry of the grace timer\<close>

text \<open>
  C4. When the pending grace timer of tenant \<open>T\<close> fires, and \<open>T\<close> equals the current
  tenant reported at that moment, the queue map is cleared and every queue that was
  registered is closed. When \<open>T\<close> differs from the current tenant, the queue map and every
  queue are as before. The rest of the callback, run when the recovery settles, touches no
  queue either.
\<close>

theorem grace_expiry_closes_queues_of_current_tenant:
  assumes "timers s t = Some (GraceTimer T)"
    and "s' = fireTimer g call t s"
  shows "(T = currentAuthIndex g \<longrightarrow> messageQueues s' = [] \<and> queues s' = closed_all (messageQueues s) (queues s))
       \<and> (T \<noteq> currentAuthIndex g \<longrightarrow> messageQueues s' = messageQueues s \<and> queues s' = queues s)
       \<and> messageQueues (recoverySettled out k s') = messageQueues s'
       \<and> queues (recoverySettled out k s') = queues s'"
  using assms
  by (simp add: fireTimer_def graceTimerCallback_queues closed_all_def)

theorem grace_expiry_closes_queues_of_current_tenant_witness:
  "timers lost_once 0 = Some (GraceTimer 0)
   \<and> messageQueues (fireTimer (Some 0) ReturnsPromise 0 lost_once) = []
   \<and> closed (queues (fireTimer (Some 0) ReturnsPromise 0 lost_once) 0)
   \<and> messageQueues (fireTimer (Some 5) ReturnsPromise 0 lost_once) = [(''r1'', 0)]
   \<and> \<not> closed (queues (fireTimer (Some 5) ReturnsPromise 0 lost_once) 0)"
proof -
  note a = grace_expiry_closes_queues_of_current_tenant
             [where g = "Some 0" and call = ReturnsPromise, OF lost_once_eval(2) refl]
  note b = grace_expiry_closes_queues_of_current_tenant
             [where g = "Some 5" and call = ReturnsPromise, OF lost_once_eval(2) refl]
  have c: "(0::int) = currentAuthIndex (Some 0)" "(0::int) \<noteq> currentAuthIndex (Some 5)"
    by (simp_all add: currentAuthIndex_def)
  from a c(1) have 1: "messageQueues (fireTimer (Some 0) ReturnsPromise 0 lost_once) = []"
    "queues (fireTimer (Some 0) ReturnsPromise 0 lost_once) =
       closed_all (messageQueues lost_once) (queues lost_once)"
    by blast+
  from b c(2) have 2: "messageQueues (fireTimer (Some 5) ReturnsPromise 0 lost_once) = messageQueues lost_once"
    "queues (fireTimer (Some 5) ReturnsPromise 0 lost_once) = queues lost_once"
    by blast+
  show ?thesis
    by (simp add: 1 2 lost_once_eval closed_all_def close_queue_def new_queue_def)
qed

section \<open>Registration within the grace period\<close>

text \<open>
  C5 as stated fails when tenant 0 is the current tenant: its connection closed and its
  grace timer 0 is pending; a queue is registered under r1 and open. A new connection for
  tenant 0 registers before the timer fires, and the queue is closed and removed from the
  map.
\<close>

theorem reconnect_within_grace_period_closes_queues:
  "timers lost_once 0 = Some (GraceTimer 0)
   \<and> reconnectGraceTimers lost_once 0 = Some 0
   \<and> messageQueues lost_once = [(''r1'', 0)]
   \<and> \<not> closed (queues lost_once 0)
   \<and> messageQueues (addConnection (Some 0) 2 \<lparr>authIndex = JSInt 0, address = ''y''\<rparr> lost_once) = []
   \<and> closed (queues (addConnection (Some 0) 2 \<lparr>authIndex = JSInt 0, address = ''y''\<rparr> lost_once) 0)"
  by (simp add: lost_once_eval new_queue_def addConnection_fields(1,2)
      clear_grace_on_reconnect_queues closed_all_def close_queue_def currentAuthIndex_def)

text \<open>
  C5, amended. When addConnection registers a connection for tenant \<open>T\<close> while the grace
  timer \<open>t\<close> is recorded for \<open>T\<close>, the timer is cleared and its entry removed, the
  connection is stored, and a later firing of \<open>t\<close> runs nothing: the grace callback does
  not run, so it neither invokes the recovery callback nor closes queues. The call itself
  does not invoke the recovery callback and leaves the reconnecting flags alone. If \<open>T\<close> is
  not the current tenant the queues are untouched; if \<open>T\<close> is the current tenant the call
  itself closes every registered queue and clears the queue map.
\<close>

theorem reconnect_within_grace_period:
  assumes "0 \<le> T"
    and "reconnectGraceTimers s T = Some t"
    and "s' = addConnection g w \<lparr>authIndex = JSInt T, address = addr\<rparr> s"
  shows "timers s' t = None
       \<and> reconnectGraceTimers s' T = None
       \<and> connectionsByAuth s' T = Some w
       \<and> fireTimer g' call t s' = s'
       \<and> (\<exists>es. trace s' = trace s @ es \<and> ClearTimeout t \<in> set es
              \<and> list_all (\<lambda>e. \<not> is_invoke e) es)
       \<and> reconnectingAccounts s' = reconnectingAccounts s
       \<and> suspended s' = suspended s
       \<and> (T \<noteq> currentAuthIndex g \<longrightarrow> messageQueues s' = messageQueues s \<and> queues s' = queues s)
       \<and> (T = currentAuthIndex g \<longrightarrow>
            messageQueues s' = [] \<and> queues s' = closed_all (messageQueues s) (queues s))"
proof -
  have 1: "timers s' t = None"
    using assms by (simp add: addConnection_fields(4))
  have 2: "fireTimer g' call t s' = s'"
    using 1 by (simp add: fireTimer_def)
  have 3: "\<exists>es. trace s' = trace s @ es \<and> ClearTimeout t \<in> set es
              \<and> list_all (\<lambda>e. \<not> is_invoke e) es"
    using assms addConnection_cancels by simp
  have 4: "reconnectGraceTimers s' T = None" "connectionsByAuth s' T = Some w"
    "reconnectingAccounts s' = reconnectingAccounts s" "suspended s' = suspended s"
    using assms by (simp_all add: addConnection_fields)
  have 5: "T \<noteq> currentAuthIndex g \<longrightarrow> messageQueues s' = messageQueues s \<and> queues s' = queues s"
    "T = currentAuthIndex g \<longrightarrow>
            messageQueues s' = [] \<and> queues s' = closed_all (messageQueues s) (queues s)"
    using assms by (auto simp: addConnection_fields(1,2) clear_grace_on_reconnect_queues)
  show ?thesis using 1 2 3 4 5 by blast
qed

theorem reconnect_within_grace_period_witness:
  "(0::int) \<le> 0
   \<and> reconnectGraceTimers lost_once 0 = Some 0
   \<and> timers (addConnection (Some 5) 2 \<lparr>authIndex = JSInt 0, address = ''y''\<rparr> lost_once) 0 = None
   \<and> connectionsByAuth (addConnection (Some 5) 2 \<lparr>authIndex = JSInt 0, address = ''y''\<rparr> lost_once) 0
        = Some 2
   \<and> fireTimer (Some 5) ReturnsPromise 0
        (addConnection (Some 5) 2 \<lparr>authIndex = JSInt 0, address = ''y''\<rparr> lost_once)
        = addConnection (Some 5) 2 \<lparr>authIndex = JSInt 0, address = ''y''\<rparr> lost_once
   \<and> (0::int) \<noteq> currentAuthIndex (Some 5)
   \<and> messageQueues (addConnection (Some 5) 2 \<lparr>authIndex = JSInt 0, address = ''y''\<rparr> lost_once)
        = [(''r1'', 0)]
   \<and> (0::int) = currentAuthIndex (Some 0)
   \<and> messageQueues (addConnection (Some 0) 2 \<lparr>authIndex = JSInt 0, address = ''y''\<rparr> lost_once) = []"
proof -
  have a: "(0::int) \<le> 0" by simp
  have c: "(0::int) \<noteq> currentAuthIndex (Some 5)" "(0::int) = currentAuthIndex (Some 0)"
    by (simp_all add: currentAuthIndex_def)
  note n = reconnect_within_grace_period
      [where T = 0 and s = lost_once and t = 0 and g = "Some 5" and w = 2 and addr = "''y''"
         and g' = "Some 5" and call = ReturnsPromise, OF a lost_once_eval(1) refl]
  note y = reconnect_within_grace_period
      [where T = 0 and s = lost_once and t = 0 and g = "Some 0" and w = 2 and addr = "''y''"
         and g' = "Some 0" and call = ReturnsPromise, OF a lost_once_eval(1) refl]
  from n c(1) have 1:
    "timers (addConnection (Some 5) 2 \<lparr>authIndex = JSInt 0, address = ''y''\<rparr> lost_once) 0 = None"
    "connectionsByAuth (addConnection (Some 5) 2 \<lparr>authIndex = JSInt 0, address = ''y''\<rparr> lost_once) 0
        = Some 2"
    "fireTimer (Some 5) ReturnsPromise 0
        (addConnection (Some 5) 2 \<lparr>authIndex = JSInt 0, address = ''y''\<rparr> lost_once)
        = addConnection (Some 5) 2 \<lparr>authIndex = JSInt 0, address = ''y''\<rparr> lost_once"
    "messageQueues (addConnection (Some 5) 2 \<lparr>authIndex = JSInt 0, address = ''y''\<rparr> lost_once)
        = messageQueues lost_once"
    by blast+
  from y c(2) have 2:
    "messageQueues (addConnection (Some 0) 2 \<lparr>authIndex = JSInt 0, address = ''y''\<rparr> lost_once) = []"
    by blast
  show ?thesis
    using a c 1(1,2,3) 2 lost_once_eval(1) by (simp add: 1(4) lost_once_eval(4))
qed

section \<open>One recovery attempt per tenant\<close>

text \<open>
  What holds of the recovery attempts on every run. In every state \<open>s\<close> that the registry
  reaches from its initial state, at most one grace callback of tenant \<open>T\<close> waits for the
  recovery callback, and while one waits the reconnecting flag of \<open>T\<close> is set. When a
  grace timer of \<open>T\<close> fires in \<open>s\<close>, the recovery callback is invoked exactly when a
  callback was supplied and the flag is not set, and the flag is set before the invocation;
  the trace of the callback is given in full. If the callback returns a promise, the flag
  stays set, the function is suspended and a timeout timer of 55000 ms is started; if it
  throws, the flag is cleared at once. When the race settles, whatever the outcome, the
  flag is cleared and the suspended function is gone, so that the next expiry for \<open>T\<close>
  invokes the callback again; the firing of the timeout timer is the outcome "timed out".
  An error leaves the grace callback exactly when the \<open>catch\<close> block cannot read the
  message of what was thrown; then the "connection lost" event is not emitted and the timer
  entry of \<open>T\<close> stays.
\<close>

lemma recovery_flag_protocol:
  assumes "s = run JSON_parse es (new_registry cb)"
    and "timers s t = Some (GraceTimer T)"
    and "s' = fireTimer g call t s"
  shows "(suspended s k = Some T \<and> suspended s k' = Some T \<longrightarrow> k = k')
       \<and> (suspended s k = Some T \<longrightarrow> isAccountReconnecting T s)
       \<and> (list_ex is_invoke (drop (length (trace s)) (trace s')) \<longleftrightarrow> attempts T s)
       \<and> trace s' = trace s @ expiry_prefix g T s
            @ (if attempts T s then
                 [SetReconnecting T, Log (AttemptingReconnect T), InvokeCallback T]
                   @ attempt_tail call T (nextTimer s)
               else [Emit ConnectionLost])
       \<and> (attempts T s \<and> call = ReturnsPromise \<longrightarrow>
            reconnectingAccounts s' T = Some True \<and> suspended s' (nextTimer s) = Some T
            \<and> timers s' (nextTimer s) = Some RecoveryTimeout
            \<and> reconnectGraceTimers s' = reconnectGraceTimers s)
       \<and> (attempts T s \<and> call \<noteq> ReturnsPromise \<longrightarrow>
            reconnectingAccounts s' T = None \<and> suspended s' = suspended s)
       \<and> (attempts T s \<longrightarrow>
            (isl (graceTimerHandler g call T (s\<lparr>timers := (timers s)(t := None)\<rparr>))
               \<longleftrightarrow> call = ThrowsUnreadable))
       \<and> (\<not> attempts T s \<or> (\<exists>msg. call = ThrowsSync msg) \<longrightarrow>
            reconnectGraceTimers s' = (reconnectGraceTimers s)(T := None))
       \<and> (suspended r j = Some T \<longrightarrow>
            reconnectingAccounts (recoverySettled out j r) T = None
            \<and> suspended (recoverySettled out j r) j = None
            \<and> (onConnectionLostCallback r \<longrightarrow> attempts T (recoverySettled out j r))
            \<and> (isl (graceTimerResume out j r) \<longleftrightarrow> out = RejectedUnreadable)
            \<and> trace (recoverySettled out j r) = trace r @ settle_effects out T j
            \<and> reconnectGraceTimers (recoverySettled out j r) =
                (if out = RejectedUnreadable then reconnectGraceTimers r
                 else (reconnectGraceTimers r)(T := None)))
       \<and> (timers r j = Some RecoveryTimeout \<longrightarrow>
            fireTimer g2 call2 j r = recoverySettled TimedOut j (r\<lparr>timers := (timers r)(j := None)\<rparr>))"
proof -
  let ?s0 = "s\<lparr>timers := (timers s)(t := None)\<rparr>"
  have inv: "recovery_inv s"
    using assms(1) run_inv new_registry_inv by simp
  have 1: "suspended s k = Some T \<and> suspended s k' = Some T \<longrightarrow> k = k'"
    using inv by (auto simp: recovery_inv_def)
  have 2: "suspended s k = Some T \<longrightarrow> isAccountReconnecting T s"
    using inv by (auto simp: recovery_inv_def isAccountReconnecting_def)
  have s': "s' = graceTimerCallback g call T ?s0"
    using assms(2,3) by (simp add: fireTimer_def)
  have tr: "trace s' = trace s @ expiry_prefix g T s
       @ (if attempts T s then
            [SetReconnecting T, Log (AttemptingReconnect T), InvokeCallback T]
              @ attempt_tail call T (nextTimer s)
          else [Emit ConnectionLost])"
    by (simp add: s' graceTimerCallback_trace)
  have pre: "list_all (\<lambda>e. \<not> is_invoke e) (expiry_prefix g T s)"
    by (rule expiry_prefix_no_invoke)
  have 3: "list_ex is_invoke (drop (length (trace s)) (trace s')) \<longleftrightarrow> attempts T s"
    using pre by (auto simp: tr list_ex_iff list_all_iff)
  have 5: "attempts T s \<and> call = ReturnsPromise \<longrightarrow>
            reconnectingAccounts s' T = Some True \<and> suspended s' (nextTimer s) = Some T
            \<and> timers s' (nextTimer s) = Some RecoveryTimeout
            \<and> reconnectGraceTimers s' = reconnectGraceTimers s"
    by (simp add: s' graceTimerCallback_attempt_eq)
  have 6: "attempts T s \<and> call \<noteq> ReturnsPromise \<longrightarrow>
            reconnectingAccounts s' T = None \<and> suspended s' = suspended s"
    using graceTimerCallback_attempt(2) [of T ?s0 call g] by (auto simp: s')
  have 7: "attempts T s \<longrightarrow>
            (isl (graceTimerHandler g call T ?s0) \<longleftrightarrow> call = ThrowsUnreadable)"
    by (cases call) (auto simp: graceTimerHandler_def Let_def attempts_def isAccountReconnecting_def)
  have 8: "\<not> attempts T s \<or> (\<exists>msg. call = ThrowsSync msg) \<longrightarrow>
            reconnectGraceTimers s' = (reconnectGraceTimers s)(T := None)"
    by (cases "attempts T s")
       (auto simp: s' graceTimerCallback_not_attempt graceTimerCallback_attempt_eq)
  have 9: "suspended r j = Some T \<longrightarrow>
            reconnectingAccounts (recoverySettled out j r) T = None
            \<and> suspended (recoverySettled out j r) j = None
            \<and> (onConnectionLostCallback r \<longrightarrow> attempts T (recoverySettled out j r))
            \<and> (isl (graceTimerResume out j r) \<longleftrightarrow> out = RejectedUnreadable)
            \<and> trace (recoverySettled out j r) = trace r @ settle_effects out T j
            \<and> reconnectGraceTimers (recoverySettled out j r) =
                (if out = RejectedUnreadable then reconnectGraceTimers r
                 else (reconnectGraceTimers r)(T := None))"
  proof
    assume h: "suspended r j = Some T"
    have o: "outcome_log T out = None \<longleftrightarrow> out = RejectedUnreadable"
      by (cases out) (simp_all add: outcome_log_def)
    have i: "isl (graceTimerResume out j r) \<longleftrightarrow> out = RejectedUnreadable"
      using h by (cases out) (simp_all add: graceTimerResume_def Let_def outcome_log_def)
    show "reconnectingAccounts (recoverySettled out j r) T = None
            \<and> suspended (recoverySettled out j r) j = None
            \<and> (onConnectionLostCallback r \<longrightarrow> attempts T (recoverySettled out j r))
            \<and> (isl (graceTimerResume out j r) \<longleftrightarrow> out = RejectedUnreadable)
            \<and> trace (recoverySettled out j r) = trace r @ settle_effects out T j
            \<and> reconnectGraceTimers (recoverySettled out j r) =
                (if out = RejectedUnreadable then reconnectGraceTimers r
                 else (reconnectGraceTimers r)(T := None))"
      using recoverySettled_clears [OF h, of out] i o
      by (simp add: attempts_def isAccountReconnecting_def)
  qed
  have 10: "timers r j = Some RecoveryTimeout \<longrightarrow>
            fireTimer g2 call2 j r = recoverySettled TimedOut j (r\<lparr>timers := (timers r)(j := None)\<rparr>)"
    by (simp add: fireTimer_def)
  show ?thesis using 1 2 3 tr 5 6 7 8 9 10 by blast
qed

lemma recovery_flag_protocol_witness:
  "timers lost_once 0 = Some (GraceTimer 0) \<and> attempts 0 lost_once
   \<and> reconnectingAccounts (fireTimer (Some 0) ReturnsPromise 0 lost_once) 0 = Some True
   \<and> suspended (fireTimer (Some 0) ReturnsPromise 0 lost_once) 1 = Some 0
   \<and> timers (fireTimer (Some 0) ReturnsPromise 0 lost_once) 1 = Some RecoveryTimeout
   \<and> reconnectingAccounts (fireTimer (Some 0) (ThrowsSync ''boom'') 0 lost_once) 0 = None
   \<and> isl (graceTimerHandler (Some 0) ThrowsUnreadable 0
             (lost_once\<lparr>timers := (timers lost_once)(0 := None)\<rparr>))
   \<and> timers second_loss 2 = Some (GraceTimer 0) \<and> suspended second_loss 1 = Some 0
   \<and> isAccountReconnecting 0 second_loss
   \<and> \<not> list_ex is_invoke (drop (length (trace second_loss))
                               (trace (fireTimer (Some 0) ReturnsPromise 2 second_loss)))
   \<and> reconnectingAccounts (recoverySettled TimedOut 1 second_loss) 0 = None
   \<and> attempts 0 (recoverySettled TimedOut 1 second_loss)
   \<and> \<not> isl (graceTimerResume TimedOut 1 second_loss)
   \<and> isl (graceTimerResume RejectedUnreadable 1 second_loss)
   \<and> reconnectGraceTimers (recoverySettled RejectedUnreadable 1 second_loss) 0 = Some 2
   \<and> fireTimer None ReturnsPromise 1 second_loss =
       recoverySettled TimedOut 1 (second_loss\<lparr>timers := (timers second_loss)(1 := None)\<rparr>)"
proof -
  have at: "attempts 0 lost_once"
    by (simp add: attempts_def isAccountReconnecting_def lost_once_more)
  note a = recovery_flag_protocol
      [where s = lost_once and t = 0 and T = 0 and g = "Some 0" and call = ReturnsPromise,
       OF lost_once_run lost_once_eval(2) refl]
  note b = recovery_flag_protocol
      [where s = lost_once and t = 0 and T = 0 and g = "Some 0" and call = "ThrowsSync ''boom''",
       OF lost_once_run lost_once_eval(2) refl]
  note b2 = recovery_flag_protocol
      [where s = lost_once and t = 0 and T = 0 and g = "Some 0" and call = ThrowsUnreadable,
       OF lost_once_run lost_once_eval(2) refl]
  note c = recovery_flag_protocol
      [where s = second_loss and t = 2 and T = 0 and g = "Some 0" and call = ReturnsPromise
         and k = 1 and k' = 1 and r = second_loss and j = 1 and out = TimedOut
         and ?g2.0 = None and ?call2.0 = ReturnsPromise,
       OF second_loss_run second_loss_eval(1) refl]
  note c2 = recovery_flag_protocol
      [where s = second_loss and t = 2 and T = 0 and g = "Some 0" and call = ReturnsPromise
         and r = second_loss and j = 1 and out = RejectedUnreadable,
       OF second_loss_run second_loss_eval(1) refl]
  from a at have 1:
    "reconnectingAccounts (fireTimer (Some 0) ReturnsPromise 0 lost_once) 0 = Some True"
    "suspended (fireTimer (Some 0) ReturnsPromise 0 lost_once) (nextTimer lost_once) = Some 0"
    "timers (fireTimer (Some 0) ReturnsPromise 0 lost_once) (nextTimer lost_once) = Some RecoveryTimeout"
    by blast+
  have ne: "ThrowsSync ''boom'' \<noteq> ReturnsPromise" by simp
  from b at ne have 2:
    "reconnectingAccounts (fireTimer (Some 0) (ThrowsSync ''boom'') 0 lost_once) 0 = None"
    by blast
  from b2 at have u: "isl (graceTimerHandler (Some 0) ThrowsUnreadable 0
             (lost_once\<lparr>timers := (timers lost_once)(0 := None)\<rparr>))"
    by blast
  from c second_loss_eval(3) have 3: "isAccountReconnecting 0 second_loss"
    by blast
  then have na: "\<not> attempts 0 second_loss"
    by (simp add: attempts_def)
  from c na have 4: "\<not> list_ex is_invoke (drop (length (trace second_loss))
                               (trace (fireTimer (Some 0) ReturnsPromise 2 second_loss)))"
    by blast
  have nt: "TimedOut \<noteq> RejectedUnreadable" by simp
  from c second_loss_eval(3,7) nt have 5:
    "reconnectingAccounts (recoverySettled TimedOut 1 second_loss) 0 = None"
    "attempts 0 (recoverySettled TimedOut 1 second_loss)"
    "\<not> isl (graceTimerResume TimedOut 1 second_loss)"
    by blast+
  from c2 second_loss_eval(3) have v:
    "isl (graceTimerResume RejectedUnreadable 1 second_loss)"
    "reconnectGraceTimers (recoverySettled RejectedUnreadable 1 second_loss) =
       reconnectGraceTimers second_loss"
    by auto
  from c second_loss_eval(2) have 6: "fireTimer None ReturnsPromise 1 second_loss =
       recoverySettled TimedOut 1 (second_loss\<lparr>timers := (timers second_loss)(1 := None)\<rparr>)"
    by blast
  have w: "reconnectGraceTimers (recoverySettled RejectedUnreadable 1 second_loss) 0 = Some 2"
    by (simp only: v(2) second_loss_eval(5))
  show ?thesis
    using at 1 2 u 3 4 5 v(1) w 6 lost_once_eval(2) second_loss_eval(1,3)
    by (simp add: lost_once_more(3))
qed

text \<open>
  C6 does not hold of the code in its clause that no callback rejection propagates an error
  out of the timer callback. The grace timer of tenant 0 has fired and the callback waits
  for the recovery callback, which then rejects with \<open>undefined\<close>. The \<open>catch\<close> block
  reads \<open>error.message\<close> (line 181) and throws a TypeError. The \<open>finally\<close> block clears
  the timeout timer and the reconnecting flag, but the error leaves the async callback as
  an unhandled rejection: no log line is written, "connection lost" is not emitted and the
  timer entry of tenant 0 is not removed (lines 191-193 are skipped). The same happens when
  the recovery callback throws \<open>undefined\<close> before it returns. A rejection with a readable
  message, and the timeout, end the callback normally.
\<close>

theorem unreadable_rejection_leaves_grace_callback:
  "awaiting_recovery =
     run example_parse
       [CreateMessageQueue ''r1'',
        AddConnection (Some 0) 1 \<lparr>authIndex = JSInt 0, address = ''x''\<rparr>,
        SocketCloses None 1,
        TimerFires (Some 0) ReturnsPromise 0]
       (new_registry True)
   \<and> suspended awaiting_recovery 1 = Some 0
   \<and> reconnectingAccounts awaiting_recovery 0 = Some True
   \<and> reconnectGraceTimers awaiting_recovery 0 = Some 0
   \<and> isl (graceTimerResume RejectedUnreadable 1 awaiting_recovery)
   \<and> step example_parse (CallbackRejectsUnreadable 1) awaiting_recovery =
       recoverySettled RejectedUnreadable 1 awaiting_recovery
   \<and> drop (length (trace awaiting_recovery))
        (trace (recoverySettled RejectedUnreadable 1 awaiting_recovery)) =
       [ClearTimeout 1, ClearReconnecting 0, UnhandledRejection TypeError]
   \<and> reconnectingAccounts (recoverySettled RejectedUnreadable 1 awaiting_recovery) 0 = None
   \<and> reconnectGraceTimers (recoverySettled RejectedUnreadable 1 awaiting_recovery) 0 = Some 0
   \<and> isl (graceTimerHandler (Some 0) ThrowsUnreadable 0
             (lost_once\<lparr>timers := (timers lost_once)(0 := None)\<rparr>))
   \<and> \<not> isl (graceTimerResume (Rejected ''boom'') 1 awaiting_recovery)
   \<and> drop (length (trace awaiting_recovery))
        (trace (recoverySettled (Rejected ''boom'') 1 awaiting_recovery)) =
       [Log (ReconnectFailed 0 ''boom''), ClearTimeout 1, ClearReconnecting 0, Emit ConnectionLost]
   \<and> reconnectGraceTimers (recoverySettled (Rejected ''boom'') 1 awaiting_recovery) 0 = None
   \<and> \<not> isl (graceTimerResume TimedOut 1 awaiting_recovery)
   \<and> drop (length (trace awaiting_recovery))
        (trace (recoverySettled TimedOut 1 awaiting_recovery)) =
       [Log (ReconnectFailed 0 ''Lightweight reconnect timed out''), ClearTimeout 1,
        ClearReconnecting 0, Emit ConnectionLost]"
  by (simp add: awaiting_recovery_def lost_once_def run_def run_defs)


section \<open>Registration of the current tenant\<close>

text \<open>
  C7 as stated fails at the first registration of tenant 0, which is the current tenant,
  with a queue registered under r1. No grace timer entry exists, the connection is
  stored, and the queue is still registered and open.
\<close>

theorem first_registration_keeps_queues:
  "currentAuthIndex (Some 0) = 0
   \<and> messageQueues (createMessageQueue ''r1'' (new_registry False)) = [(''r1'', 0)]
   \<and> connectionsByAuth
        (addConnection (Some 0) 1 \<lparr>authIndex = JSInt 0, address = ''x''\<rparr>
           (createMessageQueue ''r1'' (new_registry False))) 0 = Some 1
   \<and> messageQueues
        (addConnection (Some 0) 1 \<lparr>authIndex = JSInt 0, address = ''x''\<rparr>
           (createMessageQueue ''r1'' (new_registry False))) = [(''r1'', 0)]
   \<and> \<not> closed (queues
        (addConnection (Some 0) 1 \<lparr>authIndex = JSInt 0, address = ''x''\<rparr>
           (createMessageQueue ''r1'' (new_registry False))) 0)"
  by (simp add: run_defs)

text \<open>
  C7, amended. addConnection closes the queues only inside the branch that finds a grace
  timer entry for the tenant. When a valid registration is for the current tenant and a
  grace timer entry exists, the queue map is cleared and every registered queue is closed
  by the call; without a grace timer entry the queue map and the queues are as before.
\<close>

theorem reconnect_of_current_tenant_closes_queues:
  assumes "0 \<le> a"
    and "a = currentAuthIndex g"
    and "s' = addConnection g w \<lparr>authIndex = JSInt a, address = addr\<rparr> s"
  shows "(reconnectGraceTimers s a \<noteq> None \<longrightarrow>
            messageQueues s' = [] \<and> queues s' = closed_all (messageQueues s) (queues s))
       \<and> (reconnectGraceTimers s a = None \<longrightarrow>
            messageQueues s' = messageQueues s \<and> queues s' = queues s)"
  using assms by (simp add: addConnection_fields(1,2) clear_grace_on_reconnect_queues)

theorem reconnect_of_current_tenant_closes_queues_witness:
  "(0::int) \<le> 0 \<and> 0 = currentAuthIndex (Some 0)
   \<and> reconnectGraceTimers lost_once 0 \<noteq> None
   \<and> messageQueues (addConnection (Some 0) 2 \<lparr>authIndex = JSInt 0, address = ''y''\<rparr> lost_once) = []
   \<and> closed (queues (addConnection (Some 0) 2 \<lparr>authIndex = JSInt 0, address = ''y''\<rparr> lost_once) 0)
   \<and> reconnectGraceTimers (createMessageQueue ''r1'' (new_registry False)) 0 = None
   \<and> messageQueues (addConnection (Some 0) 2 \<lparr>authIndex = JSInt 0, address = ''y''\<rparr>
        (createMessageQueue ''r1'' (new_registry False))) = [(''r1'', 0)]"
proof -
  have a: "(0::int) \<le> 0" by simp
  have c: "(0::int) = currentAuthIndex (Some 0)" by (simp add: currentAuthIndex_def)
  have n: "reconnectGraceTimers (createMessageQueue ''r1'' (new_registry False)) 0 = None"
    "messageQueues (createMessageQueue ''r1'' (new_registry False)) = [(''r1'', 0)]"
    by (simp_all add: createMessageQueue_def new_registry_def)
  from reconnect_of_current_tenant_closes_queues
         [where a = 0 and g = "Some 0" and w = 2 and addr = "''y''" and s = lost_once, OF a c refl]
  have 1: "messageQueues (addConnection (Some 0) 2 \<lparr>authIndex = JSInt 0, address = ''y''\<rparr> lost_once) = []"
    "queues (addConnection (Some 0) 2 \<lparr>authIndex = JSInt 0, address = ''y''\<rparr> lost_once) =
       closed_all (messageQueues lost_once) (queues lost_once)"
    by (simp_all add: lost_once_eval)
  from reconnect_of_current_tenant_closes_queues
         [where a = 0 and g = "Some 0" and w = 2 and addr = "''y''"
            and s = "createMessageQueue ''r1'' (new_registry False)", OF a c refl] n
  have 2: "messageQueues (addConnection (Some 0) 2 \<lparr>authIndex = JSInt 0, address = ''y''\<rparr>
        (createMessageQueue ''r1'' (new_registry False))) = [(''r1'', 0)]"
    by simp
  show ?thesis
    using a c n(1) 2 by (simp add: 1 lost_once_eval closed_all_def close_queue_def)
qed

section \<open>Rejected registrations\<close>

text \<open>
  C8. When the supplied tenant id is undefined, negative or not an integer, addConnection
  logs the rejection, calls close(1008, "Invalid authIndex") on the offered connection and
  returns: every map of the registry, the listeners of every connection, the timers and
  the queues are as before; only these two effects are appended to the trace.
\<close>

theorem addConnection_invalid_rejects:
  assumes "authIndex clientInfo = JSUndefined
           \<or> (\<exists>n. authIndex clientInfo = JSInt n \<and> n < 0)
           \<or> (\<exists>b. authIndex clientInfo = JSOther b)"
  shows "addConnection g websocket clientInfo s =
           s\<lparr>trace := trace s @ [Log (RejectInvalidAuthIndex (authIndex clientInfo)),
                                  WsClose websocket (Some (1008, ''Invalid authIndex''))]\<rparr>"
  using assms
  by (auto simp: addConnection_def invalid_authIndex_def ws_close_def perform_def)

theorem addConnection_invalid_rejects_witness:
  "addConnection (Some 0) 7 \<lparr>authIndex = JSInt (- 1), address = ''a''\<rparr> (new_registry True) =
     (new_registry True)\<lparr>trace := [Log (RejectInvalidAuthIndex (JSInt (- 1))),
                                  WsClose 7 (Some (1008, ''Invalid authIndex''))]\<rparr>"
  using addConnection_invalid_rejects [of "\<lparr>authIndex = JSInt (- 1), address = ''a''\<rparr>" "Some 0" 7 "new_registry True"]
  by (simp add: new_registry_def)

section \<open>The timer map after a late completion\<close>

text \<open>
  C9 does not hold of the code: the invariant breaks on the following run. Tenant 0 loses
  its connection and its grace timer 0 fires; the grace callback waits for the recovery
  callback. Tenant 0 reconnects and loses the connection again, which starts grace timer 2
  and records it. Then the recovery callback resolves and the first grace callback ends
  with \<open>reconnectGraceTimers.delete(0)\<close>, which removes the entry of timer 2. Now tenant 0
  has no registered connection and its grace timer 2 is still pending, but the timer map has
  no entry for it. A following registration for tenant 0 therefore does not cancel timer 2,
  and when it fires the recovery callback is invoked although the tenant is connected.
  (The other direction holds on every run: \<open>timer_entry_only_without_connection\<close>.)
\<close>

theorem stale_expiry_handler_drops_timer_entry:
  "stale_completion =
     run example_parse
       [AddConnection (Some 0) 1 \<lparr>authIndex = JSInt 0, address = ''x''\<rparr>,
        SocketCloses None 1,
        TimerFires (Some 0) ReturnsPromise 0,
        AddConnection (Some 0) 2 \<lparr>authIndex = JSInt 0, address = ''y''\<rparr>,
        SocketCloses None 2,
        CallbackSettles 1 None]
       (createMessageQueue ''r1'' (new_registry True))
   \<and> reconnectGraceTimers stale_completion 0 = None
   \<and> connectionsByAuth stale_completion 0 = None
   \<and> timers stale_completion 2 = Some (GraceTimer 0)
   \<and> suspended stale_completion = Map.empty
   \<and> timers (addConnection (Some 0) 3 \<lparr>authIndex = JSInt 0, address = ''z''\<rparr> stale_completion) 2
        = Some (GraceTimer 0)
   \<and> connectionsByAuth
        (fireTimer (Some 0) ReturnsPromise 2
           (addConnection (Some 0) 3 \<lparr>authIndex = JSInt 0, address = ''z''\<rparr> stale_completion)) 0
        = Some 3
   \<and> list_ex is_invoke
        (drop (length (trace stale_completion))
           (trace (fireTimer (Some 0) ReturnsPromise 2
              (addConnection (Some 0) 3 \<lparr>authIndex = JSInt 0, address = ''z''\<rparr> stale_completion))))"
  by (simp add: stale_completion_def second_loss_def run_def lost_once_def run_defs)

section \<open>The same connection registered again\<close>

text \<open>
  C10. When addConnection is called with the connection that is already registered for the
  tenant, and that connection carries \<open>n\<close> sets of handlers, the call neither closes it nor
  removes its listeners, the map still holds it, and it carries \<open>n + 1\<close> sets of handlers
  afterwards. A frame received on it is then handled \<open>n + 1\<close> times in a row, so a frame
  for a registered queue is enqueued \<open>n + 1\<close> times, and its close event runs
  \<open>_removeConnection\<close> \<open>n + 1\<close> times.
\<close>

theorem same_instance_registered_twice:
  assumes "0 \<le> a"
    and "connectionsByAuth s a = Some w"
    and "listeners (sockets s w) = registrations n"
    and "s' = addConnection g w \<lparr>authIndex = JSInt a, address = addr\<rparr> s"
  shows "connectionsByAuth s' a = Some w
       \<and> (\<exists>es. trace s' = trace s @ es \<and> list_all (\<lambda>e. \<not> socket_call w e) es)
       \<and> listeners (sockets s' w) = registrations (Suc n)
       \<and> socket_message JSON_parse w d s' = handle_frames JSON_parse (replicate (Suc n) d) s'
       \<and> socket_close bm w s' = (removeConnection bm w ^^ Suc n) s'
       \<and> (JSON_parse d = Some frame \<and> bears rid frame \<and> rid \<noteq> []
            \<and> map_of (messageQueues s') rid = Some q \<longrightarrow>
           (\<exists>s''. socket_message JSON_parse w d s' = Inr s''
              \<and> queues s'' q = foldl (\<lambda>qu m. enqueue m qu) (queues s' q)
                                 (concat (replicate (Suc n) (spec_delivery frame)))))"
proof -
  let ?r = "clear_grace_on_reconnect g a s"
  have eq: "s' = perform [Emit (ConnectionAdded w)]
                  (register_handlers w (store_connection a w addr ?r))"
    using assms by (simp add: addConnection_valid replace_existing_same)
  have 1: "connectionsByAuth s' a = Some w"
    using assms(1,4) by (simp add: addConnection_lookup)
  obtain es where es: "trace ?r = trace s @ es" "list_all (\<lambda>e. \<not> socket_call w e) es"
    using clear_grace_on_reconnect_no_socket_call by blast
  have "trace s' = trace s @ (es @ [StoreConnection a w, Log (ClientConnected addr a),
           WsOn w OnMessage, WsOn w OnClose, WsOn w OnError, Emit (ConnectionAdded w)])"
    by (simp add: eq register_handlers_def store_connection_def Let_def es(1))
  moreover have "list_all (\<lambda>e. \<not> socket_call w e) (es @ [StoreConnection a w, Log (ClientConnected addr a),
           WsOn w OnMessage, WsOn w OnClose, WsOn w OnError, Emit (ConnectionAdded w)])"
    using es(2) by (simp add: socket_call_def)
  ultimately have 2: "\<exists>es. trace s' = trace s @ es \<and> list_all (\<lambda>e. \<not> socket_call w e) es"
    by blast
  have 3: "listeners (sockets s' w) = registrations (Suc n)"
    using assms(3)
    by (simp add: eq register_handlers_def store_connection_def Let_def registrations_snoc)
  have 4: "socket_message JSON_parse w d s' = handle_frames JSON_parse (replicate (Suc n) d) s'"
    unfolding socket_message_def 3 by (rule emit_message_registrations)
  have 5: "socket_close bm w s' = (removeConnection bm w ^^ Suc n) s'"
    unfolding socket_close_def 3 by (rule emit_close_registrations)
  have 6: "\<exists>s''. socket_message JSON_parse w d s' = Inr s''
              \<and> queues s'' q = foldl (\<lambda>qu m. enqueue m qu) (queues s' q)
                                 (concat (replicate (Suc n) (spec_delivery frame)))"
    if h: "JSON_parse d = Some frame \<and> bears rid frame \<and> rid \<noteq> []
            \<and> map_of (messageQueues s') rid = Some q"
  proof -
    have m: "map JSON_parse (replicate (Suc n) d) = map Some (replicate (Suc n) frame)"
      using h by simp
    have b: "\<forall>m \<in> set (replicate (Suc n) frame). bears rid m"
      using h by simp
    have "handle_frames JSON_parse (replicate (Suc n) d) s' =
            Inr (foldl (\<lambda>r m. deliver q m r) s' (replicate (Suc n) frame))"
      using handle_frames_registered [OF m b] h by blast
    moreover have "concat (map spec_delivery (replicate (Suc n) frame)) =
                     concat (replicate (Suc n) (spec_delivery frame))"
      by (simp only: map_replicate)
    ultimately show ?thesis
      using 4 foldl_deliver_queue [of q s' "replicate (Suc n) frame"] by simp
  qed
  show ?thesis using 1 2 3 4 5 6 by blast
qed

theorem same_instance_registered_twice_witness:
  "connectionsByAuth
     (addConnection (Some 0) 1 \<lparr>authIndex = JSInt 0, address = ''x''\<rparr>
        (createMessageQueue ''r1'' (new_registry False))) 0 = Some 1
   \<and> listeners (sockets
        (addConnection (Some 0) 1 \<lparr>authIndex = JSInt 0, address = ''x''\<rparr>
           (createMessageQueue ''r1'' (new_registry False))) 1) = registrations 1
   \<and> listeners (sockets
        (addConnection (Some 0) 1 \<lparr>authIndex = JSInt 0, address = ''x''\<rparr>
          (addConnection (Some 0) 1 \<lparr>authIndex = JSInt 0, address = ''x''\<rparr>
            (createMessageQueue ''r1'' (new_registry False)))) 1) = registrations 2
   \<and> (\<exists>s''. socket_message example_parse 1 ''c1''
               (addConnection (Some 0) 1 \<lparr>authIndex = JSInt 0, address = ''x''\<rparr>
                 (addConnection (Some 0) 1 \<lparr>authIndex = JSInt 0, address = ''x''\<rparr>
                   (createMessageQueue ''r1'' (new_registry False)))) = Inr s''
          \<and> items (queues s'' 0) =
              [JObj [(''request_id'', JStr ''r1''), (''event_type'', JStr ''chunk''), (''data'', JStr ''a'')],
               JObj [(''request_id'', JStr ''r1''), (''event_type'', JStr ''chunk''), (''data'', JStr ''a'')]])"
proof -
  let ?c = "JObj [(''request_id'', JStr ''r1''), (''event_type'', JStr ''chunk''), (''data'', JStr ''a'')]"
  let ?s = "addConnection (Some 0) 1 \<lparr>authIndex = JSInt 0, address = ''x''\<rparr>
              (createMessageQueue ''r1'' (new_registry False))"
  let ?s' = "addConnection (Some 0) 1 \<lparr>authIndex = JSInt 0, address = ''x''\<rparr> ?s"
  have a: "(0::int) \<le> 0" by simp
  have c: "connectionsByAuth ?s 0 = Some 1"
    by (simp add: run_defs)
  have l: "listeners (sockets ?s 1) = registrations 1"
    by (simp add: run_defs registrations_def)
  have p: "example_parse ''c1'' = Some ?c \<and> bears ''r1'' ?c \<and> ''r1'' \<noteq> []
           \<and> map_of (messageQueues ?s') ''r1'' = Some 0"
    by (simp add: example_parse_def run_defs)
  have q: "queues ?s' 0 = new_queue"
    by (simp add: run_defs)
  have d: "spec_delivery ?c = [?c]"
    by (simp add: spec_delivery_def)
  note t = same_instance_registered_twice [OF a c l refl, of "Some 0" "''x''" example_parse "''c1''" None ?c "''r1''" 0]
  from t have l2: "listeners (sockets ?s' 1) = registrations 2"
    by (simp add: numeral_2_eq_2)
  from t p obtain s'' where s'': "socket_message example_parse 1 ''c1'' ?s' = Inr s''"
    "queues s'' 0 = foldl (\<lambda>qu m. enqueue m qu) (queues ?s' 0) (concat (replicate (Suc 1) (spec_delivery ?c)))"
    by blast
  have "items (queues s'' 0) = [?c, ?c]"
    by (simp only: s''(2) q d) (simp add: new_queue_def enqueue_def)
  with c l l2 s''(1) show ?thesis by blast
qed

end
